theory Spec2Isabelle
  imports Main
begin

section \<open>WSL environment discovery: data model\<close>

text \<open>
  The development embeds \<^verbatim>\<open>src/managers/wsl/types.ts\<close>, \<^verbatim>\<open>wslPersistence.ts\<close> and
  \<^verbatim>\<open>wslEnvironmentDiscovery.ts\<close>. An object used as a dictionary is the association
  list of its own properties in enumeration order (keys distinct, as \<^verbatim>\<open>JSON.parse\<close>
  produces them); a read \<^verbatim>\<open>obj[key]\<close> and the \<^verbatim>\<open>in\<close> operator also see what the
  object inherits from \<^verbatim>\<open>Object.prototype\<close>. An optional field is an \<open>option\<close>, a
  string-literal union is a datatype. The cast of the parsed file to the document
  type is unchecked, so the parsed value may be \<^verbatim>\<open>null\<close>, the document's
  \<^verbatim>\<open>environments\<close> and \<^verbatim>\<open>workspaceMapping\<close> may be missing or \<^verbatim>\<open>null\<close> (\<open>None\<close>), and a
  stored record may be \<^verbatim>\<open>null\<close> (\<open>None\<close>); what is there has its declared shape. The
  Node runtime (\<^verbatim>\<open>path\<close>, \<^verbatim>\<open>process.platform\<close>, \<^verbatim>\<open>JSON.parse\<close>, \<^verbatim>\<open>toLowerCase\<close>) and the
  host (\<^verbatim>\<open>Uri.parse\<close>, \<^verbatim>\<open>createPythonEnvironmentItem\<close>) are parameters.
\<close>

datatype env_type = Venv | System | Other

fun type_text :: "env_type \<Rightarrow> string" where
  "type_text Venv = ''venv''"
| "type_text System = ''system''"
| "type_text Other = ''other''"

record WslEnvironmentInfo =
  distro :: string
  wslPath :: string
  venvPath :: string
  workspacePath :: "string option"
  name :: string
  type :: env_type
  createdAt :: string
  lastUsed :: string
  pythonVersion :: "string option"
  sysPrefix :: string

record WslPersistenceData =
  version :: string
  environments :: "(string \<times> WslEnvironmentInfo option) list option"
  workspaceMapping :: "(string \<times> string list) list option"

text \<open>
  A thrown value: what \<^verbatim>\<open>${err}\<close> renders, and \<^verbatim>\<open>err.stack\<close> when the value is an
  \<^verbatim>\<open>Error\<close> instance.
\<close>

datatype error = Thrown (rendered: string) (stack: "string option")

definition TypeError :: "string \<Rightarrow> error" where
  "TypeError m = Thrown (''TypeError: '' @ m) (Some (''TypeError: '' @ m))"

datatype log_entry = TraceInfo string | TraceError string

text \<open>
  The world outside the process: the file system as \<^verbatim>\<open>fs-extra\<close> sees it (directory
  paths, file contents by path, paths on which the operating system refuses the
  operation) and the log channel. Directories are a flat set of paths: the parents
  that \<^verbatim>\<open>ensureDir\<close> creates on the way are not tracked.
\<close>

record world =
  directories :: "string set"
  files :: "string \<rightharpoonup> string"
  faults :: "string set"
  log :: "log_entry list"

text \<open>\<open>JSON_parse\<close> throws (\<open>Inl\<close>), or returns \<^verbatim>\<open>null\<close> (\<open>None\<close>) or a document.\<close>

record runtime =
  platform :: string
  path_normalize :: "string \<Rightarrow> string"
  path_dirname :: "string \<Rightarrow> string"
  toLowerCase :: "string \<Rightarrow> string"
  JSON_parse :: "string \<Rightarrow> error + WslPersistenceData option"

record WslPersistenceManager =
  persistenceFilePath :: string
  cache :: "WslPersistenceData option"

section \<open>Property access on plain objects\<close>

text \<open>
  The property names every plain object inherits from \<^verbatim>\<open>Object.prototype\<close>. Reading
  one that is not an own property yields the inherited function (for \<^verbatim>\<open>__proto__\<close> the
  prototype object): a truthy value that is neither an array nor a record.
\<close>

definition Object_prototype_names :: "string list" where
  "Object_prototype_names =
     [''constructor'', ''__defineGetter__'', ''__defineSetter__'', ''hasOwnProperty'',
      ''__lookupGetter__'', ''__lookupSetter__'', ''isPrototypeOf'',
      ''propertyIsEnumerable'', ''toString'', ''valueOf'', ''__proto__'',
      ''toLocaleString'']"

datatype 'a property = NoProperty | Own 'a | Inherited string

text \<open>\<^verbatim>\<open>obj[key]\<close>: the own property, else the inherited member, else \<^verbatim>\<open>undefined\<close>.\<close>

definition get_property :: "(string \<times> 'a) list \<Rightarrow> string \<Rightarrow> 'a property" where
  "get_property obj key =
     (case map_of obj key of
        Some v \<Rightarrow> Own v
      | None \<Rightarrow> if key \<in> set Object_prototype_names then Inherited key else NoProperty)"

text \<open>\<^verbatim>\<open>key in obj\<close>.\<close>

definition has_property :: "(string \<times> 'a) list \<Rightarrow> string \<Rightarrow> bool" where
  "has_property obj key \<longleftrightarrow> key \<in> set (map fst obj) \<or> key \<in> set Object_prototype_names"

text \<open>
  What \<^verbatim>\<open>${member.length}\<close> renders for an inherited member: the arity of the function,
  \<^verbatim>\<open>undefined\<close> for the prototype object behind \<^verbatim>\<open>__proto__\<close>.
\<close>

definition inherited_length :: "string \<Rightarrow> string" where
  "inherited_length key =
     (if key = ''__proto__'' then ''undefined''
      else if key = ''__defineGetter__'' \<or> key = ''__defineSetter__'' then ''2''
      else if key = ''toString'' \<or> key = ''valueOf'' \<or> key = ''toLocaleString'' then ''0''
      else ''1'')"

section \<open>Logging and number rendering\<close>

definition traceInfo :: "string \<Rightarrow> world \<Rightarrow> world" where
  "traceInfo m w = w\<lparr>log := log w @ [TraceInfo m]\<rparr>"

definition traceError :: "string \<Rightarrow> world \<Rightarrow> world" where
  "traceError m w = w\<lparr>log := log w @ [TraceError m]\<rparr>"

text \<open>What a reader of the log sees of errors: the messages written at error level.\<close>

fun error_messages :: "log_entry list \<Rightarrow> string list" where
  "error_messages [] = []"
| "error_messages (TraceInfo m # es) = error_messages es"
| "error_messages (TraceError m # es) = m # error_messages es"

definition errors_logged :: "world \<Rightarrow> string list" where
  "errors_logged w = error_messages (log w)"

fun decimal :: "nat \<Rightarrow> string" where
  "decimal n =
     (if n < 10 then [''0123456789'' ! n]
      else decimal (n div 10) @ [''0123456789'' ! (n mod 10)])"

declare decimal.simps [simp del]

section \<open>File system operations\<close>

definition ensureDir :: "string \<Rightarrow> world \<Rightarrow> error + world" where
  "ensureDir d w =
     (if d \<in> faults w \<or> files w d \<noteq> None
      then Inl (Thrown (''Error: cannot create directory '' @ d) (Some ''ensureDir''))
      else Inr (w\<lparr>directories := insert d (directories w)\<rparr>))"

definition pathExists :: "string \<Rightarrow> world \<Rightarrow> bool" where
  "pathExists p w = (files w p \<noteq> None \<or> p \<in> directories w)"

definition readFile :: "string \<Rightarrow> world \<Rightarrow> error + string" where
  "readFile p w =
     (if p \<in> faults w then Inl (Thrown (''Error: cannot read '' @ p) (Some ''readFile''))
      else case files w p of
             None \<Rightarrow> Inl (Thrown (''Error: not a readable file '' @ p) (Some ''readFile''))
           | Some content \<Rightarrow> Inr content)"

section \<open>Persistence store\<close>

definition CURRENT_VERSION :: string where
  "CURRENT_VERSION = ''1.0''"

definition createEmptyData :: WslPersistenceData where
  "createEmptyData =
     \<lparr>version = CURRENT_VERSION, environments = Some [], workspaceMapping = Some []\<rparr>"

text \<open>
  The body of the \<^verbatim>\<open>try\<close> block of \<^verbatim>\<open>loadData\<close>: \<open>Inl\<close> is a throw. Reading
  \<^verbatim>\<open>data.version\<close> throws when the parsed value is \<^verbatim>\<open>null\<close>. The cache is assigned
  before the message that counts the environments is built, and building it throws
  when \<^verbatim>\<open>data.environments\<close> is missing or \<^verbatim>\<open>null\<close>.
\<close>

definition loadData_try ::
  "runtime \<Rightarrow> WslPersistenceManager \<Rightarrow> world
     \<Rightarrow> (error + WslPersistenceData) \<times> WslPersistenceManager \<times> world" where
  "loadData_try rt s w =
     (let p = persistenceFilePath s in
      case ensureDir (path_dirname rt p) w of
        Inl e \<Rightarrow> (Inl e, s, w)
      | Inr w1 \<Rightarrow>
          let w2 = traceInfo (''[WSL Persistence] Directory ensured: '' @ path_dirname rt p) w1 in
          if pathExists p w2 then
            let w3 = traceInfo ''[WSL Persistence] File exists, reading...'' w2 in
            case readFile p w3 of
              Inl e \<Rightarrow> (Inl e, s, w3)
            | Inr content \<Rightarrow>
                (case JSON_parse rt content of
                   Inl e \<Rightarrow> (Inl e, s, w3)
                 | Inr None \<Rightarrow>
                     (Inl (TypeError ''Cannot read properties of null (reading version)''), s, w3)
                 | Inr (Some data) \<Rightarrow>
                     if version data \<noteq> CURRENT_VERSION then
                       (Inr createEmptyData, s,
                        traceInfo (''[WSL Persistence] Version mismatch. Expected ''
                          @ CURRENT_VERSION @ '', got '' @ version data
                          @ ''. Creating new file.'') w3)
                     else
                       (case environments data of
                          None \<Rightarrow>
                            (Inl (TypeError ''Cannot convert undefined or null to object''),
                             s\<lparr>cache := Some data\<rparr>, w3)
                        | Some envs \<Rightarrow>
                            (Inr data, s\<lparr>cache := Some data\<rparr>,
                             traceInfo (''[WSL Persistence] Loaded '' @ decimal (length envs)
                               @ '' environments from disk'') w3)))
          else
            (Inr createEmptyData, s,
             traceInfo ''[WSL Persistence] File does not exist, returning empty data'' w2))"

text \<open>
  \<^verbatim>\<open>loadData\<close>. The cached branch is outside the \<^verbatim>\<open>try\<close>: its message counts the
  environments of the cached document, and building it throws when they are missing.
\<close>

definition loadData ::
  "runtime \<Rightarrow> WslPersistenceManager \<Rightarrow> world
     \<Rightarrow> (error + WslPersistenceData) \<times> WslPersistenceManager \<times> world" where
  "loadData rt s w =
     (case cache s of
        Some c \<Rightarrow>
          (case environments c of
             None \<Rightarrow> (Inl (TypeError ''Cannot convert undefined or null to object''), s, w)
           | Some envs \<Rightarrow>
               (Inr c, s,
                traceInfo (''[WSL Persistence] Returning cached data (''
                  @ decimal (length envs) @ '' environments)'') w))
      | None \<Rightarrow>
          (case loadData_try rt s
                  (traceInfo (''[WSL Persistence] Loading data from: ''
                     @ persistenceFilePath s) w) of
             (Inr data, s', w') \<Rightarrow> (Inr data, s', w')
           | (Inl e, s', w') \<Rightarrow>
               (Inr createEmptyData, s',
                traceError (''[WSL Persistence] Error loading data: '' @ rendered e) w')))"

definition normalizePath :: "runtime \<Rightarrow> string \<Rightarrow> string" where
  "normalizePath rt filePath =
     (let normalized = path_normalize rt filePath in
      if platform rt = ''win32'' then toLowerCase rt normalized else normalized)"

text \<open>
  The queries await \<^verbatim>\<open>loadData\<close> outside any \<^verbatim>\<open>try\<close>: when it rejects, or when a
  property of a missing member is read, the query rejects (\<open>Inl\<close>).
\<close>

definition getAllEnvironments ::
  "runtime \<Rightarrow> WslPersistenceManager \<Rightarrow> world
     \<Rightarrow> (error + (string \<times> WslEnvironmentInfo option) list) \<times> WslPersistenceManager \<times> world"
  where
  "getAllEnvironments rt s w =
     (case loadData rt s w of
        (Inl e, s', w') \<Rightarrow> (Inl e, s', w')
      | (Inr data, s', w') \<Rightarrow>
          (case environments data of
             None \<Rightarrow> (Inl (TypeError ''Cannot convert undefined or null to object''), s', w')
           | Some envs \<Rightarrow> (Inr envs, s', w')))"

text \<open>
  What the store's \<^verbatim>\<open>getWorkspaceEnvironments\<close> pushes: a record, or the inherited
  member that a listed key named.
\<close>

datatype found = Record WslEnvironmentInfo | Member string

text \<open>
  The \<^verbatim>\<open>for ... of envIds\<close> loop of the store's \<^verbatim>\<open>getWorkspaceEnvironments\<close>:
  \<^verbatim>\<open>undefined\<close> and \<^verbatim>\<open>null\<close> are falsy, a record and an inherited member are truthy.
\<close>

fun collectEnvironments ::
  "(string \<times> WslEnvironmentInfo option) list option \<Rightarrow> string list \<Rightarrow> found list \<Rightarrow> world
     \<Rightarrow> (error + found list) \<times> world" where
  "collectEnvironments envs [] acc w = (Inr acc, w)"
| "collectEnvironments None (envId # envIds) acc w =
     (Inl (TypeError ''Cannot read properties of undefined (reading an id)''), w)"
| "collectEnvironments (Some envs) (envId # envIds) acc w =
     (case get_property envs envId of
        Own (Some env) \<Rightarrow>
          collectEnvironments (Some envs) envIds (acc @ [Record env])
            (traceInfo (''[WSL Persistence] Loaded environment: '' @ envId) w)
      | Inherited key \<Rightarrow>
          collectEnvironments (Some envs) envIds (acc @ [Member key])
            (traceInfo (''[WSL Persistence] Loaded environment: '' @ envId) w)
      | Own None \<Rightarrow>
          collectEnvironments (Some envs) envIds acc
            (traceInfo (''[WSL Persistence] Environment ID not found in data: '' @ envId) w)
      | NoProperty \<Rightarrow>
          collectEnvironments (Some envs) envIds acc
            (traceInfo (''[WSL Persistence] Environment ID not found in data: '' @ envId) w))"

text \<open>
  \<^verbatim>\<open>data.workspaceMapping[normalizedPath] || []\<close>: an inherited member is truthy, so
  it is what the loop is asked to iterate, and \<^verbatim>\<open>for ... of\<close> throws on it.
\<close>

definition getWorkspaceEnvironments ::
  "runtime \<Rightarrow> WslPersistenceManager \<Rightarrow> string \<Rightarrow> world
     \<Rightarrow> (error + found list) \<times> WslPersistenceManager \<times> world" where
  "getWorkspaceEnvironments rt s wsPath w =
     (case loadData rt s
             (traceInfo (''[WSL Persistence] getWorkspaceEnvironments called for: ''
                @ wsPath) w) of
        (Inl e, s', w1) \<Rightarrow> (Inl e, s', w1)
      | (Inr data, s', w1) \<Rightarrow>
          let normalizedPath = normalizePath rt wsPath;
              w2 = traceInfo (''[WSL Persistence] Normalized path: '' @ normalizedPath) w1
          in case workspaceMapping data of
               None \<Rightarrow>
                 (Inl (TypeError ''Cannot read properties of undefined (reading a path)''), s', w2)
             | Some mapping \<Rightarrow>
                 (case get_property mapping normalizedPath of
                    Inherited key \<Rightarrow>
                      (Inl (TypeError ''envIds is not iterable''), s',
                       traceInfo (''[WSL Persistence] Found '' @ inherited_length key
                         @ '' environment IDs in mapping'') w2)
                  | listed \<Rightarrow>
                      (let envIds = (case listed of Own ids \<Rightarrow> ids | _ \<Rightarrow> []);
                           w3 = traceInfo (''[WSL Persistence] Found '' @ decimal (length envIds)
                                  @ '' environment IDs in mapping'') w2
                       in case collectEnvironments (environments data) envIds [] w3 of
                            (Inl e, w4) \<Rightarrow> (Inl e, s', w4)
                          | (Inr envs, w4) \<Rightarrow>
                              (Inr envs, s',
                               traceInfo (''[WSL Persistence] Returning ''
                                 @ decimal (length envs)
                                 @ '' environments for workspace: '' @ wsPath) w4))))"

definition getEnvironment ::
  "runtime \<Rightarrow> WslPersistenceManager \<Rightarrow> string \<Rightarrow> world
     \<Rightarrow> (error + WslEnvironmentInfo option property) \<times> WslPersistenceManager \<times> world" where
  "getEnvironment rt s envId w =
     (case loadData rt s w of
        (Inl e, s', w') \<Rightarrow> (Inl e, s', w')
      | (Inr data, s', w') \<Rightarrow>
          (case environments data of
             None \<Rightarrow>
               (Inl (TypeError ''Cannot read properties of undefined (reading an id)''), s', w')
           | Some envs \<Rightarrow> (Inr (get_property envs envId), s', w')))"

definition hasEnvironment ::
  "runtime \<Rightarrow> WslPersistenceManager \<Rightarrow> string \<Rightarrow> world
     \<Rightarrow> (error + bool) \<times> WslPersistenceManager \<times> world" where
  "hasEnvironment rt s envId w =
     (case loadData rt s w of
        (Inl e, s', w') \<Rightarrow> (Inl e, s', w')
      | (Inr data, s', w') \<Rightarrow>
          (case environments data of
             None \<Rightarrow>
               (Inl (TypeError ''Cannot use the in operator to search in undefined''), s', w')
           | Some envs \<Rightarrow> (Inr (has_property envs envId), s', w')))"

definition clearCache :: "WslPersistenceManager \<Rightarrow> WslPersistenceManager" where
  "clearCache s = s\<lparr>cache := None\<rparr>"

definition getPersistenceFilePath :: "WslPersistenceManager \<Rightarrow> string" where
  "getPersistenceFilePath s = persistenceFilePath s"

section \<open>Host-facing data and the host's capabilities\<close>

record PythonCommandRunConfiguration =
  executable :: string
  args :: "string list"

record ExecInfo =
  run :: PythonCommandRunConfiguration
  activation :: "PythonCommandRunConfiguration list option"
  shellActivation :: "(string \<rightharpoonup> PythonCommandRunConfiguration list) option"
  deactivation :: "PythonCommandRunConfiguration list option"

record EnvironmentGroupInfo =
  name :: string
  description :: string
  tooltip :: string

record 'uri PythonEnvironmentInfo =
  name :: string
  displayName :: string
  shortDisplayName :: string
  displayPath :: string
  version :: string
  environmentPath :: 'uri
  description :: string
  tooltip :: string
  execInfo :: ExecInfo
  sysPrefix :: string
  group :: EnvironmentGroupInfo

text \<open>
  The discovery object. Its \<^verbatim>\<open>persistence\<close> is the injected store, given by the query
  \<^verbatim>\<open>discoverEnvironments\<close> calls, over the store's state \<open>'st\<close> (a query that rejects
  returns \<open>Inl\<close>); \<open>Uri_parse\<close> is \<^verbatim>\<open>Uri.parse\<close> of the editor,
  \<open>createPythonEnvironmentItem\<close> the factory of the environment API, \<open>manager\<close> the
  owner handed to it.
\<close>

record ('st, 'uri, 'mgr, 'penv) WslEnvironmentDiscovery =
  persistence_getAllEnvironments ::
    "'st \<Rightarrow> world
       \<Rightarrow> (error + (string \<times> WslEnvironmentInfo option) list) \<times> 'st \<times> world"
  Uri_parse :: "string \<Rightarrow> error + 'uri"
  createPythonEnvironmentItem :: "'uri PythonEnvironmentInfo \<Rightarrow> 'mgr \<Rightarrow> error + 'penv"
  manager :: 'mgr

section \<open>Record-to-environment converter\<close>

text \<open>\<^verbatim>\<open>v || d\<close> on an optional string: absent and empty both give the default.\<close>

definition or_default :: "string option \<Rightarrow> string \<Rightarrow> string" where
  "or_default v d = (case v of None \<Rightarrow> d | Some x \<Rightarrow> if x = [] then d else x)"

definition buildActivationCommands ::
  "WslEnvironmentInfo \<Rightarrow> PythonCommandRunConfiguration list" where
  "buildActivationCommands info =
     (let activateScript = venvPath info @ ''/bin/activate'' in
      [\<lparr>executable = ''wsl.exe'',
        args = [''-d'', distro info, ''--'', ''bash'', ''-c'',
                ''source '' @ [CHR 0x22] @ activateScript @ [CHR 0x22]]\<rparr>])"

definition buildShellActivation ::
  "WslEnvironmentInfo \<Rightarrow> (string \<rightharpoonup> PythonCommandRunConfiguration list)" where
  "buildShellActivation info =
     (let activateScript = venvPath info @ ''/bin/activate'';
          m1 = Map.empty(''bash'' \<mapsto> [\<lparr>executable = ''source'', args = [activateScript]\<rparr>]);
          m2 = m1(''zsh'' \<mapsto> [\<lparr>executable = ''source'', args = [activateScript]\<rparr>]);
          m3 = m2(''fish'' \<mapsto>
                 [\<lparr>executable = ''source'', args = [venvPath info @ ''/bin/activate.fish'']\<rparr>]);
          m4 = m3(''pwsh'' \<mapsto>
                 [\<lparr>executable = ''.'', args = [venvPath info @ ''/bin/Activate.ps1'']\<rparr>])
      in m4(''unknown'' \<mapsto> [\<lparr>executable = ''source'', args = [activateScript]\<rparr>]))"

definition buildExecutionInfo :: "WslEnvironmentInfo \<Rightarrow> ExecInfo" where
  "buildExecutionInfo info =
     \<lparr>run = \<lparr>executable = ''wsl.exe'', args = [''-d'', distro info, ''--'', wslPath info]\<rparr>,
      activation = (if type info = Venv then Some (buildActivationCommands info) else None),
      shellActivation = (if type info = Venv then Some (buildShellActivation info) else None),
      deactivation =
        (if type info = Venv then Some [\<lparr>executable = ''deactivate'', args = []\<rparr>] else None)\<rparr>"

definition generateEnvId :: "WslEnvironmentInfo \<Rightarrow> string" where
  "generateEnvId info = ''wsl:'' @ distro info @ '':'' @ wslPath info"

text \<open>
  The descriptor information that \<^verbatim>\<open>convertToPythonEnvironment\<close> hands to the host's
  factory, given the parsed resource locator.
\<close>

definition envInfo_of :: "WslEnvironmentInfo \<Rightarrow> 'uri \<Rightarrow> 'uri PythonEnvironmentInfo" where
  "envInfo_of info uri =
     \<lparr>name = WslEnvironmentInfo.name info,
      displayName = WslEnvironmentInfo.name info @ '' (WSL: '' @ distro info @ '')'',
      shortDisplayName = WslEnvironmentInfo.name info,
      displayPath = wslPath info,
      version = or_default (pythonVersion info) ''Unknown'',
      environmentPath = uri,
      description = ''WSL '' @ type_text (type info) @ '' environment in '' @ distro info,
      tooltip = ''WSL Path: '' @ wslPath info @ [CHR 0x0A] @ ''Distro: '' @ distro info
                  @ [CHR 0x0A] @ ''Workspace: '' @ or_default (workspacePath info) ''N/A'',
      execInfo = buildExecutionInfo info,
      sysPrefix = WslEnvironmentInfo.sysPrefix info,
      group = \<lparr>EnvironmentGroupInfo.name = ''WSL'',
                EnvironmentGroupInfo.description =
                  ''Windows Subsystem for Linux ('' @ distro info @ '')'',
                EnvironmentGroupInfo.tooltip = ''Python environments running in WSL''\<rparr>\<rparr>"

text \<open>The body of the \<^verbatim>\<open>try\<close> block of \<^verbatim>\<open>convertToPythonEnvironment\<close>.\<close>

definition convertToPythonEnvironment_try ::
  "('st, 'uri, 'mgr, 'penv) WslEnvironmentDiscovery \<Rightarrow> WslEnvironmentInfo \<Rightarrow> string
     \<Rightarrow> error + 'penv" where
  "convertToPythonEnvironment_try d info envId =
     (case Uri_parse d envId of
        Inl e \<Rightarrow> Inl e
      | Inr uri \<Rightarrow> createPythonEnvironmentItem d (envInfo_of info uri) (manager d))"

definition convertToPythonEnvironment ::
  "('st, 'uri, 'mgr, 'penv) WslEnvironmentDiscovery \<Rightarrow> WslEnvironmentInfo \<Rightarrow> string
     \<Rightarrow> world \<Rightarrow> 'penv option \<times> world" where
  "convertToPythonEnvironment d info envId w =
     (case convertToPythonEnvironment_try d info envId of
        Inr pythonEnv \<Rightarrow> (Some pythonEnv, w)
      | Inl err \<Rightarrow>
          (None,
           traceError (''[WSL Discovery] Error creating PythonEnvironment: '' @ rendered err) w))"

section \<open>Discovery facade\<close>

definition stack_text :: "error \<Rightarrow> string" where
  "stack_text err = (case stack err of None \<Rightarrow> ''No stack trace'' | Some t \<Rightarrow> t)"

text \<open>
  The \<^verbatim>\<open>for ... of wslEnvs\<close> loop of \<^verbatim>\<open>discoverEnvironments\<close>. The three messages
  after the first read fields of the record outside the loop's own \<^verbatim>\<open>try\<close>: for a
  \<^verbatim>\<open>null\<close> record the read throws and the loop is left (\<open>Inl\<close>). The converter catches
  every throw itself, so the loop's own \<^verbatim>\<open>catch\<close> has no branch here.
\<close>

fun convertEntries ::
  "('st, 'uri, 'mgr, 'penv) WslEnvironmentDiscovery
     \<Rightarrow> (string \<times> WslEnvironmentInfo option) list
     \<Rightarrow> 'penv list \<Rightarrow> world \<Rightarrow> (error + 'penv list) \<times> world" where
  "convertEntries d [] pythonEnvs w = (Inr pythonEnvs, w)"
| "convertEntries d ((envId, None) # rest) pythonEnvs w =
     (Inl (TypeError ''Cannot read properties of null (reading distro)''),
      traceInfo (''[WSL Discovery] Processing environment: '' @ envId) w)"
| "convertEntries d ((envId, Some info) # rest) pythonEnvs w =
     (let w1 = traceInfo (''[WSL Discovery] Processing environment: '' @ envId) w;
          w2 = traceInfo (''[WSL Discovery]   - Distro: '' @ distro info) w1;
          w3 = traceInfo (''[WSL Discovery]   - WSL Path: '' @ wslPath info) w2;
          w4 = traceInfo (''[WSL Discovery]   - Workspace: ''
                 @ or_default (workspacePath info) ''N/A'') w3
      in case convertToPythonEnvironment d info envId w4 of
           (Some pythonEnv, w5) \<Rightarrow>
             convertEntries d rest (pythonEnvs @ [pythonEnv])
               (traceInfo (''[WSL Discovery] Successfully converted environment: '' @ envId) w5)
         | (None, w5) \<Rightarrow>
             convertEntries d rest pythonEnvs
               (traceInfo (''[WSL Discovery] Failed to convert environment (returned undefined): ''
                  @ envId) w5))"

definition discoverEnvironments ::
  "('st, 'uri, 'mgr, 'penv) WslEnvironmentDiscovery \<Rightarrow> 'st \<Rightarrow> world
     \<Rightarrow> 'penv list \<times> 'st \<times> world" where
  "discoverEnvironments d st w =
     (let w0 = traceInfo ''[WSL Discovery] Starting WSL environment discovery'' w;
          w1 = traceInfo ''[WSL Discovery] Loading all environments from persistence...'' w0;
          caught = (\<lambda>err w'.
            traceError (''[WSL Discovery] Error stack: '' @ stack_text err)
              (traceError (''[WSL Discovery] Error discovering WSL environments: ''
                 @ rendered err) w'))
      in case persistence_getAllEnvironments d st w1 of
           (Inl err, st', w2) \<Rightarrow> ([], st', caught err w2)
         | (Inr wslEnvs, st', w2) \<Rightarrow>
             let w3 = traceInfo (''[WSL Discovery] Found '' @ decimal (length wslEnvs)
                        @ '' WSL environments in persistence'') w2;
                 w4 = (if length wslEnvs = 0
                       then traceInfo ''[WSL Discovery] No environments found in persistence file'' w3
                       else w3)
             in case convertEntries d wslEnvs [] w4 of
                  (Inl err, w5) \<Rightarrow> ([], st', caught err w5)
                | (Inr pythonEnvs, w5) \<Rightarrow>
                    (pythonEnvs, st',
                     traceInfo (''[WSL Discovery] Returning '' @ decimal (length pythonEnvs)
                        @ '' environments'')
                       (traceInfo (''[WSL Discovery] Successfully converted ''
                          @ decimal (length pythonEnvs) @ '' WSL environments'') w5)))"

text \<open>
  The discovery object as \<^verbatim>\<open>registerWslFeatures\<close> builds it: its persistence is a
  \<^verbatim>\<open>WslPersistenceManager\<close>.
\<close>

definition wslDiscovery ::
  "runtime \<Rightarrow> (string \<Rightarrow> error + 'uri) \<Rightarrow> ('uri PythonEnvironmentInfo \<Rightarrow> 'mgr \<Rightarrow> error + 'penv)
     \<Rightarrow> 'mgr \<Rightarrow> (WslPersistenceManager, 'uri, 'mgr, 'penv) WslEnvironmentDiscovery" where
  "wslDiscovery rt parse create mgr =
     \<lparr>persistence_getAllEnvironments = getAllEnvironments rt,
      Uri_parse = parse,
      createPythonEnvironmentItem = create,
      manager = mgr\<rparr>"

section \<open>Observations of the world used in the statements\<close>

text \<open>
  Whether the directory of the persistence file can be ensured; the version-\<^verbatim>\<open>1.0\<close>
  document that a load with no cached document reads from the file, if any; and
  whether the body of the \<^verbatim>\<open>try\<close> block of such a load throws.
\<close>

definition ensured :: "runtime \<Rightarrow> WslPersistenceManager \<Rightarrow> world \<Rightarrow> bool" where
  "ensured rt s w \<longleftrightarrow>
     path_dirname rt (persistenceFilePath s) \<notin> faults w
     \<and> files w (path_dirname rt (persistenceFilePath s)) = None"

definition stored_document ::
  "runtime \<Rightarrow> WslPersistenceManager \<Rightarrow> world \<Rightarrow> WslPersistenceData option" where
  "stored_document rt s w =
     (if ensured rt s w \<and> persistenceFilePath s \<notin> faults w then
        case files w (persistenceFilePath s) of
          None \<Rightarrow> None
        | Some content \<Rightarrow>
            (case JSON_parse rt content of
               Inl e \<Rightarrow> None
             | Inr None \<Rightarrow> None
             | Inr (Some data) \<Rightarrow>
                 if WslPersistenceData.version data = CURRENT_VERSION then Some data else None)
      else None)"

definition load_throws :: "runtime \<Rightarrow> WslPersistenceManager \<Rightarrow> world \<Rightarrow> bool" where
  "load_throws rt s w \<longleftrightarrow>
     (let p = persistenceFilePath s in
      \<not> ensured rt s w
      \<or> (case files w p of
            None \<Rightarrow> p = path_dirname rt p \<or> p \<in> directories w
          | Some content \<Rightarrow>
              p \<in> faults w
              \<or> (case JSON_parse rt content of
                    Inl e \<Rightarrow> True
                  | Inr None \<Rightarrow> True
                  | Inr (Some data) \<Rightarrow>
                      WslPersistenceData.version data = CURRENT_VERSION \<and> environments data = None)))"

text \<open>
  What the store's \<^verbatim>\<open>getWorkspaceEnvironments\<close> pushes for a list of keys, and what it
  answers from a loaded document for a normalized path.
\<close>

definition pushed ::
  "(string \<times> WslEnvironmentInfo option) list \<Rightarrow> string list \<Rightarrow> found list" where
  "pushed envs envIds =
     List.map_filter
       (\<lambda>envId. case get_property envs envId of
                   Own (Some env) \<Rightarrow> Some (Record env)
                 | Inherited key \<Rightarrow> Some (Member key)
                 | _ \<Rightarrow> None)
       envIds"

definition listed_environments :: "WslPersistenceData \<Rightarrow> string \<Rightarrow> error + found list" where
  "listed_environments data normalizedPath =
     (case workspaceMapping data of
        None \<Rightarrow> Inl (TypeError ''Cannot read properties of undefined (reading a path)'')
      | Some mapping \<Rightarrow>
          (case get_property mapping normalizedPath of
             Inherited key \<Rightarrow> Inl (TypeError ''envIds is not iterable'')
           | NoProperty \<Rightarrow> Inr []
           | Own envIds \<Rightarrow>
               (case environments data of
                  None \<Rightarrow>
                    (if envIds = [] then Inr []
                     else Inl (TypeError ''Cannot read properties of undefined (reading an id)''))
                | Some envs \<Rightarrow> Inr (pushed envs envIds))))"

text \<open>The external producer rewrites a file; this system never does.\<close>

definition producer_writes :: "string \<Rightarrow> string \<Rightarrow> world \<Rightarrow> world" where
  "producer_writes p content w = w\<lparr>files := (files w)(p \<mapsto> content)\<rparr>"


text \<open>
  What \<^verbatim>\<open>convertToPythonEnvironment\<close> returns for a record under a key: the host's
  descriptor, or nothing when \<^verbatim>\<open>Uri.parse\<close> or the host's factory throws.
\<close>

definition converted ::
  "('st, 'uri, 'mgr, 'penv) WslEnvironmentDiscovery \<Rightarrow> string \<Rightarrow> WslEnvironmentInfo
     \<Rightarrow> 'penv option" where
  "converted d envId info =
     (case convertToPythonEnvironment_try d info envId of
        Inr pythonEnv \<Rightarrow> Some pythonEnv
      | Inl err \<Rightarrow> None)"
section \<open>Example inputs\<close>

definition proj_venv :: WslEnvironmentInfo where
  "proj_venv =
     \<lparr>distro = ''Ubuntu-22.04'', wslPath = ''/mnt/c/proj/.venv/bin/python'',
      venvPath = ''/mnt/c/proj/.venv'', workspacePath = Some ''/home/u/proj'',
      WslEnvironmentInfo.name = ''.venv'', type = Venv, createdAt = ''2024-01-01T00:00:00Z'',
      lastUsed = ''2024-01-02T00:00:00Z'', pythonVersion = Some ''3.11.0'',
      WslEnvironmentInfo.sysPrefix = ''/mnt/c/proj/.venv''\<rparr>"

definition usr_python :: WslEnvironmentInfo where
  "usr_python =
     \<lparr>distro = ''Ubuntu-22.04'', wslPath = ''/usr/bin/python3'',
      venvPath = ''/usr'', workspacePath = None,
      WslEnvironmentInfo.name = ''python3'', type = System, createdAt = ''2024-01-01T00:00:00Z'',
      lastUsed = ''2024-01-02T00:00:00Z'', pythonVersion = None,
      WslEnvironmentInfo.sysPrefix = ''/usr''\<rparr>"

definition venv_key :: string where
  "venv_key = ''wsl:Ubuntu-22.04:/mnt/c/proj/.venv/bin/python''"

definition usr_key :: string where
  "usr_key = ''wsl:Ubuntu-22.04:/usr/bin/python3''"

definition doc_v1 :: WslPersistenceData where
  "doc_v1 =
     \<lparr>WslPersistenceData.version = ''1.0'',
      environments = Some [(venv_key, Some proj_venv), (usr_key, Some usr_python)],
      workspaceMapping = Some [(''/home/u/proj'', [usr_key, ''wsl:Debian:/gone'', venv_key])]\<rparr>"

definition doc_v2 :: WslPersistenceData where
  "doc_v2 = doc_v1\<lparr>WslPersistenceData.version := ''2.0''\<rparr>"

definition doc_later :: WslPersistenceData where
  "doc_later =
     \<lparr>WslPersistenceData.version = ''1.0'',
      environments = Some [(usr_key, Some usr_python)],
      workspaceMapping = Some []\<rparr>"

text \<open>The file \<^verbatim>\<open>{"version":"1.0"}\<close>: the supported version and nothing else.\<close>

definition doc_no_environments :: WslPersistenceData where
  "doc_no_environments = \<lparr>WslPersistenceData.version = ''1.0'', environments = None, workspaceMapping = None\<rparr>"

text \<open>A document whose second record is \<^verbatim>\<open>null\<close>.\<close>

definition doc_null_record :: WslPersistenceData where
  "doc_null_record =
     \<lparr>WslPersistenceData.version = ''1.0'',
      environments = Some [(venv_key, Some proj_venv), (usr_key, None)],
      workspaceMapping = Some []\<rparr>"

text \<open>A document whose workspace entry lists \<^verbatim>\<open>toString\<close>, under which nothing is stored.\<close>

definition doc_member_listed :: WslPersistenceData where
  "doc_member_listed =
     \<lparr>WslPersistenceData.version = ''1.0'',
      environments = Some [(venv_key, Some proj_venv)],
      workspaceMapping = Some [(''/home/u/proj'', [''toString'', venv_key])]\<rparr>"

text \<open>
  The JSON text of a document, as the producer would write it, for the contents of
  the example files.
\<close>

definition quoted :: "string \<Rightarrow> string" where
  "quoted s = [CHR 0x22] @ s @ [CHR 0x22]"

definition json_member :: "string \<Rightarrow> string \<Rightarrow> string" where
  "json_member key v = quoted key @ '':'' @ v"

fun comma_separated :: "string list \<Rightarrow> string" where
  "comma_separated [] = []"
| "comma_separated [x] = x"
| "comma_separated (x # y # ys) = x @ '','' @ comma_separated (y # ys)"

definition json_object :: "string list \<Rightarrow> string" where
  "json_object members = ''{'' @ comma_separated members @ ''}''"

definition json_array :: "string list \<Rightarrow> string" where
  "json_array elements = ''['' @ comma_separated elements @ '']''"

definition json_optional :: "string \<Rightarrow> string option \<Rightarrow> string list" where
  "json_optional key v = (case v of None \<Rightarrow> [] | Some x \<Rightarrow> [json_member key (quoted x)])"

definition json_info :: "WslEnvironmentInfo option \<Rightarrow> string" where
  "json_info r =
     (case r of
        None \<Rightarrow> ''null''
      | Some info \<Rightarrow>
          json_object
            ([json_member ''distro'' (quoted (distro info)),
              json_member ''wslPath'' (quoted (wslPath info)),
              json_member ''venvPath'' (quoted (venvPath info))]
             @ json_optional ''workspacePath'' (workspacePath info)
             @ [json_member ''name'' (quoted (WslEnvironmentInfo.name info)),
                json_member ''type'' (quoted (type_text (type info))),
                json_member ''createdAt'' (quoted (createdAt info)),
                json_member ''lastUsed'' (quoted (lastUsed info))]
             @ json_optional ''pythonVersion'' (pythonVersion info)
             @ [json_member ''sysPrefix'' (quoted (WslEnvironmentInfo.sysPrefix info))]))"

definition json_document :: "WslPersistenceData \<Rightarrow> string" where
  "json_document data =
     json_object
       ([json_member ''version'' (quoted (WslPersistenceData.version data))]
        @ (case environments data of
             None \<Rightarrow> []
           | Some envs \<Rightarrow>
               [json_member ''environments''
                  (json_object (map (\<lambda>entry. json_member (fst entry) (json_info (snd entry)))
                     envs))])
        @ (case workspaceMapping data of
             None \<Rightarrow> []
           | Some mapping \<Rightarrow>
               [json_member ''workspaceMapping''
                  (json_object (map (\<lambda>entry. json_member (fst entry)
                     (json_array (map quoted (snd entry)))) mapping))]))"

definition syntax_error :: error where
  "syntax_error = Thrown ''SyntaxError: Unexpected end of JSON input'' (Some ''at JSON.parse'')"

definition example_documents :: "WslPersistenceData list" where
  "example_documents =
     [doc_no_environments, doc_v2, doc_later, doc_null_record, doc_v1, doc_member_listed]"

text \<open>
  \<^verbatim>\<open>JSON.parse\<close> on the texts of the example files: \<^verbatim>\<open>null\<close>, the texts of the example
  documents, and a syntax error for the truncated text \<^verbatim>\<open>{\<close> and everything else.
\<close>

definition example_JSON_parse :: "string \<Rightarrow> error + WslPersistenceData option" where
  "example_JSON_parse content =
     (if content = ''null'' then Inr None
      else case find (\<lambda>data. json_document data = content) example_documents of
             Some data \<Rightarrow> Inr (Some data)
           | None \<Rightarrow> Inl syntax_error)"

definition ascii_lower :: "char \<Rightarrow> char" where
  "ascii_lower c =
     (case map_of (zip ''ABCDEFGHIJKLMNOPQRSTUVWXYZ'' ''abcdefghijklmnopqrstuvwxyz'') c of
        Some l \<Rightarrow> l
      | None \<Rightarrow> c)"

definition posix_dirname :: "string \<Rightarrow> string" where
  "posix_dirname p = rev (tl (dropWhile (\<lambda>c. c \<noteq> CHR ''/'') (rev p)))"

text \<open>
  A Linux runtime for the examples. Its paths are absolute or single names without
  dots and doubled slashes, on which \<^verbatim>\<open>path.normalize\<close> is the identity.
\<close>

definition linux_rt :: runtime where
  "linux_rt =
     \<lparr>platform = ''linux'',
      path_normalize = (\<lambda>p. p),
      path_dirname = posix_dirname,
      toLowerCase = map ascii_lower,
      JSON_parse = example_JSON_parse\<rparr>"

definition store_path :: string where
  "store_path = ''/data/wsl-environments.json''"

definition fresh_store :: WslPersistenceManager where
  "fresh_store = \<lparr>persistenceFilePath = store_path, cache = None\<rparr>"

definition no_file :: world where
  "no_file = \<lparr>directories = {}, files = Map.empty, faults = {}, log = []\<rparr>"

definition file_with :: "string \<Rightarrow> world" where
  "file_with content =
     \<lparr>directories = {''/data''}, files = [store_path \<mapsto> content], faults = {}, log = []\<rparr>"

definition denied :: world where
  "denied = (file_with (json_document doc_v1))\<lparr>faults := {store_path}\<rparr>"

text \<open>
  A host for the examples: the locator is the scheme and the rest of the key, the
  factory returns the information it is given.
\<close>

definition example_Uri_parse :: "string \<Rightarrow> error + string \<times> string" where
  "example_Uri_parse key =
     Inr (takeWhile (\<lambda>c. c \<noteq> CHR '':'') key, drop 1 (dropWhile (\<lambda>c. c \<noteq> CHR '':'') key))"

definition example_discovery ::
  "(WslPersistenceManager, string \<times> string, string,
    (string \<times> string) PythonEnvironmentInfo) WslEnvironmentDiscovery"
  where
  "example_discovery = wslDiscovery linux_rt example_Uri_parse (\<lambda>info mgr. Inr info) ''wsl''"

section \<open>The load algorithm and the store's queries\<close>

subsection \<open>The world under logging\<close>

lemma error_messages_append [simp]:
  "error_messages (xs @ ys) = error_messages xs @ error_messages ys"
  by (induction xs rule: error_messages.induct) simp_all

lemma traceInfo_fields [simp]:
  "files (traceInfo m w) = files w"
  "faults (traceInfo m w) = faults w"
  "directories (traceInfo m w) = directories w"
  "errors_logged (traceInfo m w) = errors_logged w"
  by (simp_all add: traceInfo_def errors_logged_def)

lemma traceError_fields [simp]:
  "files (traceError m w) = files w"
  "faults (traceError m w) = faults w"
  "directories (traceError m w) = directories w"
  "errors_logged (traceError m w) = errors_logged w @ [m]"
  by (simp_all add: traceError_def errors_logged_def)

subsection \<open>The load algorithm in closed form\<close>

lemma loadData_try_world:
  "files (snd (snd (loadData_try rt s w))) = files w"
  "faults (snd (snd (loadData_try rt s w))) = faults w"
  "directories (snd (snd (loadData_try rt s w))) =
     (if ensured rt s w then insert (path_dirname rt (persistenceFilePath s)) (directories w)
      else directories w)"
  "errors_logged (snd (snd (loadData_try rt s w))) = errors_logged w"
  by (simp_all add: loadData_try_def ensured_def ensureDir_def Let_def errors_logged_def
        traceInfo_def split: sum.splits option.splits)

lemma loadData_try_result:
  "fst (loadData_try rt s w) =
     (let p = persistenceFilePath s in
      case ensureDir (path_dirname rt p) w of
        Inl e \<Rightarrow> Inl e
      | Inr w1 \<Rightarrow>
          if files w p \<noteq> None \<or> p \<in> directories w1 then
            case readFile p w of
              Inl e \<Rightarrow> Inl e
            | Inr content \<Rightarrow>
                (case JSON_parse rt content of
                   Inl e \<Rightarrow> Inl e
                 | Inr None \<Rightarrow>
                     Inl (TypeError ''Cannot read properties of null (reading version)'')
                 | Inr (Some data) \<Rightarrow>
                     if WslPersistenceData.version data \<noteq> CURRENT_VERSION
                     then Inr createEmptyData
                     else (case environments data of
                             None \<Rightarrow> Inl (TypeError ''Cannot convert undefined or null to object'')
                           | Some envs \<Rightarrow> Inr data))
          else Inr createEmptyData)"
  by (simp add: loadData_try_def ensureDir_def pathExists_def readFile_def Let_def
        traceInfo_def split: sum.splits option.splits)

lemma loadData_try_cache:
  "fst (snd (loadData_try rt s w)) =
     (case stored_document rt s w of Some data \<Rightarrow> s\<lparr>cache := Some data\<rparr> | None \<Rightarrow> s)"
  by (simp add: loadData_try_def stored_document_def ensured_def ensureDir_def
        pathExists_def readFile_def Let_def traceInfo_def split: sum.splits option.splits)

lemma loadData_try_document:
  "(case fst (loadData_try rt s w) of Inl e \<Rightarrow> createEmptyData | Inr data \<Rightarrow> data) =
     (case stored_document rt s w of
        Some data \<Rightarrow> if environments data = None then createEmptyData else data
      | None \<Rightarrow> createEmptyData)"
  by (simp add: loadData_try_result stored_document_def ensured_def ensureDir_def
        readFile_def Let_def split: option.splits sum.splits)

lemma loadData_try_throws:
  "isl (fst (loadData_try rt s w)) \<longleftrightarrow> load_throws rt s w"
  by (auto simp: loadData_try_result load_throws_def ensured_def ensureDir_def
        readFile_def Let_def split: option.splits sum.splits)

lemma observations_log_irrelevant [simp]:
  "ensured rt s (traceInfo m w) = ensured rt s w"
  "stored_document rt s (traceInfo m w) = stored_document rt s w"
  "load_throws rt s (traceInfo m w) = load_throws rt s w"
  by (simp_all add: ensured_def stored_document_def load_throws_def cong: option.case_cong)

text \<open>A load with nothing cached never rejects: every throw is caught.\<close>

lemma loadData_uncached:
  assumes "cache s = None"
  shows "fst (loadData rt s w) =
           Inr (case stored_document rt s w of
                  Some data \<Rightarrow> if environments data = None then createEmptyData else data
                | None \<Rightarrow> createEmptyData)"
    and "fst (snd (loadData rt s w)) =
           (case stored_document rt s w of Some data \<Rightarrow> s\<lparr>cache := Some data\<rparr> | None \<Rightarrow> s)"
proof -
  let ?w0 = "traceInfo (''[WSL Persistence] Loading data from: '' @ persistenceFilePath s) w"
  have "fst (loadData rt s w) =
          Inr (case fst (loadData_try rt s ?w0) of
                 Inl e \<Rightarrow> createEmptyData | Inr data \<Rightarrow> data)"
    using assms by (simp add: loadData_def split: prod.splits sum.splits)
  then show "fst (loadData rt s w) =
           Inr (case stored_document rt s w of
                  Some data \<Rightarrow> if environments data = None then createEmptyData else data
                | None \<Rightarrow> createEmptyData)"
    by (simp only: loadData_try_document observations_log_irrelevant)
  have "fst (snd (loadData rt s w)) = fst (snd (loadData_try rt s ?w0))"
    using assms by (simp add: loadData_def split: prod.splits sum.splits)
  then show "fst (snd (loadData rt s w)) =
           (case stored_document rt s w of Some data \<Rightarrow> s\<lparr>cache := Some data\<rparr> | None \<Rightarrow> s)"
    by (simp only: loadData_try_cache observations_log_irrelevant)
qed

text \<open>A load with a cached document answers from it, or rejects, and touches nothing.\<close>

lemma loadData_cached:
  assumes "cache s = Some c"
  shows "fst (loadData rt s w) =
           (case environments c of
              None \<Rightarrow> Inl (TypeError ''Cannot convert undefined or null to object'')
            | Some envs \<Rightarrow> Inr c)"
    and "fst (snd (loadData rt s w)) = s"
    and "files (snd (snd (loadData rt s w))) = files w"
    and "faults (snd (snd (loadData rt s w))) = faults w"
    and "directories (snd (snd (loadData rt s w))) = directories w"
    and "errors_logged (snd (snd (loadData rt s w))) = errors_logged w"
  using assms by (simp_all add: loadData_def split: option.splits)

lemma loadData_world:
  "files (snd (snd (loadData rt s w))) = files w"
  "faults (snd (snd (loadData rt s w))) = faults w"
  "directories (snd (snd (loadData rt s w))) =
     (if cache s = None \<and> ensured rt s w
      then insert (path_dirname rt (persistenceFilePath s)) (directories w)
      else directories w)"
proof -
  let ?w0 = "traceInfo (''[WSL Persistence] Loading data from: '' @ persistenceFilePath s) w"
  have w': "snd (snd (loadData rt s w)) =
      (case fst (loadData_try rt s ?w0) of
         Inr data \<Rightarrow> snd (snd (loadData_try rt s ?w0))
       | Inl e \<Rightarrow> traceError (''[WSL Persistence] Error loading data: '' @ rendered e)
                    (snd (snd (loadData_try rt s ?w0))))"
    if "cache s = None"
    using that by (simp add: loadData_def split: option.splits prod.splits sum.splits)
  show "files (snd (snd (loadData rt s w))) = files w"
    by (cases "cache s")
       (simp_all add: w' loadData_cached loadData_try_world split: sum.splits)
  show "faults (snd (snd (loadData rt s w))) = faults w"
    by (cases "cache s")
       (simp_all add: w' loadData_cached loadData_try_world split: sum.splits)
  show "directories (snd (snd (loadData rt s w))) =
     (if cache s = None \<and> ensured rt s w
      then insert (path_dirname rt (persistenceFilePath s)) (directories w)
      else directories w)"
    by (cases "cache s")
       (simp_all add: w' loadData_cached loadData_try_world split: sum.splits)
qed

lemma loadData_errors_logged:
  "\<exists>ms. errors_logged (snd (snd (loadData rt s w))) = errors_logged w @ ms
        \<and> (if cache s = None \<and> load_throws rt s w then \<exists>m. ms = [m] else ms = [])"
proof (cases "cache s")
  case None
  let ?w0 = "traceInfo (''[WSL Persistence] Loading data from: '' @ persistenceFilePath s) w"
  have w': "snd (snd (loadData rt s w)) =
      (case fst (loadData_try rt s ?w0) of
         Inr data \<Rightarrow> snd (snd (loadData_try rt s ?w0))
       | Inl e \<Rightarrow> traceError (''[WSL Persistence] Error loading data: '' @ rendered e)
                    (snd (snd (loadData_try rt s ?w0))))"
    using None by (simp add: loadData_def split: option.splits prod.splits sum.splits)
  have t: "isl (fst (loadData_try rt s ?w0)) \<longleftrightarrow> load_throws rt s w"
    by (simp only: loadData_try_throws observations_log_irrelevant)
  show ?thesis
    unfolding w' using t None
    by (cases "fst (loadData_try rt s ?w0)") (simp_all add: loadData_try_world)
next
  case (Some c)
  then show ?thesis by (simp add: loadData_cached)
qed

lemma loadData_traceInfo [simp]:
  "fst (loadData rt s (traceInfo m w)) = fst (loadData rt s w)"
  "fst (snd (loadData rt s (traceInfo m w))) = fst (snd (loadData rt s w))"
  by (cases "cache s"; simp add: loadData_uncached loadData_cached)+

text \<open>What a load returns has its environments, whenever it returns.\<close>

lemma loadData_returns_environments:
  assumes "fst (loadData rt s w) = Inr data"
  shows "environments data \<noteq> None"
proof (cases "cache s")
  case None
  then show ?thesis
    using assms
    by (auto simp: loadData_uncached createEmptyData_def split: option.splits if_splits)
next
  case (Some c)
  then show ?thesis
    using assms by (auto simp: loadData_cached split: option.splits)
qed

lemma createEmptyData_fields [simp]:
  "environments createEmptyData = Some []"
  "workspaceMapping createEmptyData = Some []"
  "WslPersistenceData.version createEmptyData = ''1.0''"
  by (simp_all add: createEmptyData_def CURRENT_VERSION_def)

subsection \<open>The queries in terms of what the load returns\<close>

lemma get_property_simps:
  "get_property [] key = (if key \<in> set Object_prototype_names then Inherited key else NoProperty)"
  "key \<notin> fst ` set obj \<Longrightarrow>
     get_property obj key
       = (if key \<in> set Object_prototype_names then Inherited key else NoProperty)"
  "map_of obj key = Some v \<Longrightarrow> get_property obj key = Own v"
  by (simp_all add: get_property_def map_of_eq_None_iff [THEN iffD2])

lemma collectEnvironments_result:
  "fst (collectEnvironments (Some envs) envIds acc w) = Inr (acc @ pushed envs envIds)"
proof (induction envIds arbitrary: acc w)
  case Nil
  show ?case by (simp add: pushed_def List.map_filter_simps)
next
  case (Cons envId envIds)
  show ?case
    by (cases "get_property envs envId" rule: property.exhaust)
       (auto simp: Cons.IH pushed_def List.map_filter_simps split: option.splits)
qed

lemma getAllEnvironments_result:
  "fst (getAllEnvironments rt s w) =
     (case fst (loadData rt s w) of
        Inl e \<Rightarrow> Inl e
      | Inr data \<Rightarrow>
          (case environments data of
             None \<Rightarrow> Inl (TypeError ''Cannot convert undefined or null to object'')
           | Some envs \<Rightarrow> Inr envs))"
  by (simp add: getAllEnvironments_def split: prod.splits sum.splits option.splits)

lemma getEnvironment_result:
  "fst (getEnvironment rt s envId w) =
     (case fst (loadData rt s w) of
        Inl e \<Rightarrow> Inl e
      | Inr data \<Rightarrow>
          (case environments data of
             None \<Rightarrow> Inl (TypeError ''Cannot read properties of undefined (reading an id)'')
           | Some envs \<Rightarrow> Inr (get_property envs envId)))"
  by (simp add: getEnvironment_def split: prod.splits sum.splits option.splits)

lemma hasEnvironment_result:
  "fst (hasEnvironment rt s envId w) =
     (case fst (loadData rt s w) of
        Inl e \<Rightarrow> Inl e
      | Inr data \<Rightarrow>
          (case environments data of
             None \<Rightarrow> Inl (TypeError ''Cannot use the in operator to search in undefined'')
           | Some envs \<Rightarrow> Inr (has_property envs envId)))"
  by (simp add: hasEnvironment_def split: prod.splits sum.splits option.splits)

lemma getWorkspaceEnvironments_result:
  "fst (getWorkspaceEnvironments rt s wsPath w) =
     (case fst (loadData rt s w) of
        Inl e \<Rightarrow> Inl e
      | Inr data \<Rightarrow> listed_environments data (normalizePath rt wsPath))"
proof -
  let ?w0 = "traceInfo (''[WSL Persistence] getWorkspaceEnvironments called for: '' @ wsPath) w"
  obtain r s' w1 where l: "loadData rt s ?w0 = (r, s', w1)"
    by (cases "loadData rt s ?w0")
  have r: "fst (loadData rt s w) = r"
    using l loadData_traceInfo(1) [of rt s _ w] by (metis fst_conv)
  show ?thesis
  proof (cases r)
    case (Inl e)
    then show ?thesis
      unfolding getWorkspaceEnvironments_def l r by simp
  next
    case (Inr data)
    have envs: "environments data \<noteq> None"
      using loadData_returns_environments [of rt s w data] r Inr by simp
    then obtain envs where e: "environments data = Some envs"
      by blast
    show ?thesis
      unfolding getWorkspaceEnvironments_def l r Inr
      by (cases "workspaceMapping data")
         (auto simp: Let_def listed_environments_def e collectEnvironments_result split_beta
            pushed_def List.map_filter_simps
            split: property.splits)
  qed
qed

lemma query_store:
  "fst (snd (getAllEnvironments rt s w)) = fst (snd (loadData rt s w))"
  "fst (snd (getEnvironment rt s envId w)) = fst (snd (loadData rt s w))"
  "fst (snd (hasEnvironment rt s envId w)) = fst (snd (loadData rt s w))"
  by (simp_all add: getAllEnvironments_def getEnvironment_def hasEnvironment_def
        split: prod.splits sum.splits option.splits)

lemma getWorkspaceEnvironments_store:
  "fst (snd (getWorkspaceEnvironments rt s wsPath w)) = fst (snd (loadData rt s w))"
proof -
  let ?w0 = "traceInfo (''[WSL Persistence] getWorkspaceEnvironments called for: '' @ wsPath) w"
  obtain r s' w1 where l: "loadData rt s ?w0 = (r, s', w1)"
    by (cases "loadData rt s ?w0")
  have s': "fst (snd (loadData rt s w)) = s'"
    using l loadData_traceInfo(2) [of rt s _ w] by (metis fst_conv snd_conv)
  show ?thesis
    unfolding getWorkspaceEnvironments_def l s'
    by (auto simp: Let_def split_beta split: sum.splits option.splits property.splits)
qed


lemma query_world:
  "snd (snd (getAllEnvironments rt s w)) = snd (snd (loadData rt s w))"
  "snd (snd (getEnvironment rt s envId w)) = snd (snd (loadData rt s w))"
  "snd (snd (hasEnvironment rt s envId w)) = snd (snd (loadData rt s w))"
  by (simp_all add: getAllEnvironments_def getEnvironment_def hasEnvironment_def
        split: prod.splits sum.splits option.splits)
subsection \<open>The example runtime and files\<close>

lemmas json_text_defs =
  json_document_def json_info_def json_object_def json_array_def json_member_def
  json_optional_def quoted_def

lemma example_parse:
  "JSON_parse linux_rt (json_document doc_no_environments) = Inr (Some doc_no_environments)"
  "JSON_parse linux_rt (json_document doc_v2) = Inr (Some doc_v2)"
  "JSON_parse linux_rt (json_document doc_later) = Inr (Some doc_later)"
  "JSON_parse linux_rt (json_document doc_null_record) = Inr (Some doc_null_record)"
  "JSON_parse linux_rt (json_document doc_v1) = Inr (Some doc_v1)"
  "JSON_parse linux_rt ''{'' = Inl syntax_error"
  "JSON_parse linux_rt ''null'' = Inr None"
  "JSON_parse linux_rt (json_document doc_member_listed) = Inr (Some doc_member_listed)"
  by (simp_all add: linux_rt_def example_JSON_parse_def example_documents_def json_text_defs
        doc_no_environments_def doc_v1_def doc_v2_def doc_later_def doc_null_record_def
        doc_member_listed_def
        proj_venv_def usr_python_def venv_key_def usr_key_def)

lemma example_paths:
  "persistenceFilePath fresh_store = store_path"
  "cache fresh_store = None"
  "path_dirname linux_rt store_path = ''/data''"
  "normalizePath linux_rt p = p"
  by (simp_all add: fresh_store_def linux_rt_def posix_dirname_def store_path_def
        normalizePath_def)

lemma example_files:
  "files (file_with content) store_path = Some content"
  "files (file_with content) ''/data'' = None"
  "faults (file_with content) = {}"
  "directories (file_with content) = {''/data''}"
  "errors_logged (file_with content) = []"
  "files no_file = Map.empty"
  "faults no_file = {}"
  "directories no_file = {}"
  "errors_logged no_file = []"
  by (simp_all add: file_with_def no_file_def store_path_def errors_logged_def)

lemma example_stored_document:
  "stored_document linux_rt fresh_store (file_with content) =
     (case JSON_parse linux_rt content of
        Inl e \<Rightarrow> None
      | Inr None \<Rightarrow> None
      | Inr (Some data) \<Rightarrow> if WslPersistenceData.version data = ''1.0'' then Some data else None)"
  "stored_document linux_rt fresh_store no_file = None"
  by (simp_all add: stored_document_def ensured_def example_paths example_files
        CURRENT_VERSION_def split: sum.splits option.splits)

section \<open>The execution configuration\<close>

lemma dom_buildShellActivation:
  "dom (buildShellActivation info) = {''bash'', ''zsh'', ''fish'', ''pwsh'', ''unknown''}"
  by (auto simp: buildShellActivation_def Let_def)

lemma buildShellActivation_entries:
  "buildShellActivation info ''bash'' =
     Some [\<lparr>executable = ''source'', args = [venvPath info @ ''/bin/activate'']\<rparr>]"
  "buildShellActivation info ''zsh'' =
     Some [\<lparr>executable = ''source'', args = [venvPath info @ ''/bin/activate'']\<rparr>]"
  "buildShellActivation info ''fish'' =
     Some [\<lparr>executable = ''source'', args = [venvPath info @ ''/bin/activate.fish'']\<rparr>]"
  "buildShellActivation info ''pwsh'' =
     Some [\<lparr>executable = ''.'', args = [venvPath info @ ''/bin/Activate.ps1'']\<rparr>]"
  "buildShellActivation info ''unknown'' =
     Some [\<lparr>executable = ''source'', args = [venvPath info @ ''/bin/activate'']\<rparr>]"
  by (simp_all add: buildShellActivation_def Let_def)

text \<open>
  C1. For a record of kind \<^verbatim>\<open>venv\<close> the execution configuration has the run command
  \<^verbatim>\<open>wsl.exe -d <distro> -- <interpreter path>\<close>, a present activation list, a per-shell
  activation map whose keys are exactly bash, zsh, fish, pwsh and unknown, each mapped
  to a non-empty command list (bash, zsh and unknown source \<^verbatim>\<open><venvPath>/bin/activate\<close>,
  fish sources \<^verbatim>\<open>activate.fish\<close>, pwsh dot-sources \<^verbatim>\<open>Activate.ps1\<close>), and the
  deactivation list holding the single command \<^verbatim>\<open>deactivate\<close> with no arguments. For a
  record of any other kind the three are absent and the run command is still there.
\<close>

theorem buildExecutionInfo_by_kind:
  "run (buildExecutionInfo info) =
     \<lparr>executable = ''wsl.exe'', args = [''-d'', distro info, ''--'', wslPath info]\<rparr>
   \<and> (type info = Venv \<longrightarrow>
        activation (buildExecutionInfo info) =
          Some [\<lparr>executable = ''wsl.exe'',
                 args = [''-d'', distro info, ''--'', ''bash'', ''-c'',
                         ''source '' @ [CHR 0x22] @ venvPath info @ ''/bin/activate''
                           @ [CHR 0x22]]\<rparr>]
        \<and> (\<exists>m. shellActivation (buildExecutionInfo info) = Some m
              \<and> dom m = {''bash'', ''zsh'', ''fish'', ''pwsh'', ''unknown''}
              \<and> (\<forall>k \<in> dom m. \<exists>c cs. m k = Some (c # cs))
              \<and> m ''bash'' =
                  Some [\<lparr>executable = ''source'', args = [venvPath info @ ''/bin/activate'']\<rparr>]
              \<and> m ''zsh'' =
                  Some [\<lparr>executable = ''source'', args = [venvPath info @ ''/bin/activate'']\<rparr>]
              \<and> m ''unknown'' =
                  Some [\<lparr>executable = ''source'', args = [venvPath info @ ''/bin/activate'']\<rparr>]
              \<and> m ''fish'' =
                  Some [\<lparr>executable = ''source'',
                         args = [venvPath info @ ''/bin/activate.fish'']\<rparr>]
              \<and> m ''pwsh'' =
                  Some [\<lparr>executable = ''.'', args = [venvPath info @ ''/bin/Activate.ps1'']\<rparr>])
        \<and> deactivation (buildExecutionInfo info) =
            Some [\<lparr>executable = ''deactivate'', args = []\<rparr>])
   \<and> (type info \<noteq> Venv \<longrightarrow>
        activation (buildExecutionInfo info) = None
        \<and> shellActivation (buildExecutionInfo info) = None
        \<and> deactivation (buildExecutionInfo info) = None)"
proof -
  have nonempty: "\<forall>k \<in> dom (buildShellActivation info). \<exists>c cs. buildShellActivation info k = Some (c # cs)"
    unfolding dom_buildShellActivation using buildShellActivation_entries [of info] by simp
  show ?thesis
    using nonempty
    by (simp add: buildExecutionInfo_def buildActivationCommands_def Let_def
          dom_buildShellActivation buildShellActivation_entries)
qed

theorem buildExecutionInfo_by_kind_witness:
  "type proj_venv = Venv
   \<and> deactivation (buildExecutionInfo proj_venv) = Some [\<lparr>executable = ''deactivate'', args = []\<rparr>]
   \<and> (\<exists>m. shellActivation (buildExecutionInfo proj_venv) = Some m
         \<and> m ''fish'' = Some [\<lparr>executable = ''source'',
                                args = [''/mnt/c/proj/.venv/bin/activate.fish'']\<rparr>])
   \<and> type usr_python \<noteq> Venv
   \<and> shellActivation (buildExecutionInfo usr_python) = None
   \<and> run (buildExecutionInfo usr_python) =
       \<lparr>executable = ''wsl.exe'', args = [''-d'', ''Ubuntu-22.04'', ''--'', ''/usr/bin/python3'']\<rparr>"
  using buildExecutionInfo_by_kind [of proj_venv] buildExecutionInfo_by_kind [of usr_python]
  by (auto simp: proj_venv_def usr_python_def)

section \<open>Loading the persistence file\<close>

subsection \<open>Reading the file\<close>

lemma stored_document_read:
  assumes "path_dirname rt (persistenceFilePath s) \<notin> faults w"
    and "files w (path_dirname rt (persistenceFilePath s)) = None"
    and "persistenceFilePath s \<notin> faults w"
    and "files w (persistenceFilePath s) = Some content"
    and "JSON_parse rt content = Inr (Some doc)"
  shows "stored_document rt s w =
           (if WslPersistenceData.version doc = ''1.0'' then Some doc else None)"
  using assms by (simp add: stored_document_def ensured_def CURRENT_VERSION_def)

lemma load_throws_read:
  assumes "path_dirname rt (persistenceFilePath s) \<notin> faults w"
    and "files w (path_dirname rt (persistenceFilePath s)) = None"
    and "persistenceFilePath s \<notin> faults w"
    and "files w (persistenceFilePath s) = Some content"
    and "JSON_parse rt content = Inr (Some doc)"
  shows "load_throws rt s w
           \<longleftrightarrow> WslPersistenceData.version doc = ''1.0'' \<and> environments doc = None"
  using assms by (simp add: load_throws_def ensured_def CURRENT_VERSION_def)

text \<open>
  C2. A load that reads and parses the persistence file: when the parsed version tag
  is \<^verbatim>\<open>1.0\<close> the loaded document is the file's document and \<^verbatim>\<open>getAllEnvironments\<close>
  returns exactly its key/record pairs (none when the file has no \<^verbatim>\<open>environments\<close>);
  for any other version tag the load yields the empty document (no environments, no
  workspace mapping) and writes nothing at error level to the log.
\<close>

theorem loadData_version_gate:
  assumes "cache s = None"
    and "path_dirname rt (persistenceFilePath s) \<notin> faults w"
    and "files w (path_dirname rt (persistenceFilePath s)) = None"
    and "persistenceFilePath s \<notin> faults w"
    and "files w (persistenceFilePath s) = Some content"
    and "JSON_parse rt content = Inr (Some doc)"
  shows "(WslPersistenceData.version doc = ''1.0'' \<longrightarrow>
            (\<forall>envs. environments doc = Some envs \<longrightarrow>
               fst (loadData rt s w) = Inr doc
               \<and> fst (getAllEnvironments rt s w) = Inr envs)
            \<and> (environments doc = None \<longrightarrow> fst (getAllEnvironments rt s w) = Inr []))
       \<and> (WslPersistenceData.version doc \<noteq> ''1.0'' \<longrightarrow>
            fst (loadData rt s w) = Inr createEmptyData
            \<and> environments createEmptyData = Some []
            \<and> workspaceMapping createEmptyData = Some []
            \<and> fst (getAllEnvironments rt s w) = Inr []
            \<and> errors_logged (snd (snd (loadData rt s w))) = errors_logged w)"
proof -
  have doc: "fst (loadData rt s w) =
               Inr (if WslPersistenceData.version doc = ''1.0'' \<and> environments doc \<noteq> None
                    then doc else createEmptyData)"
    using assms(1) by (simp add: loadData_uncached stored_document_read [OF assms(2-6)])
  have quiet: "errors_logged (snd (snd (loadData rt s w))) = errors_logged w"
    if "WslPersistenceData.version doc \<noteq> ''1.0''"
    using loadData_errors_logged [of rt s w] load_throws_read [OF assms(2-6)] that by auto
  show ?thesis
    using quiet by (auto simp: getAllEnvironments_result doc)
qed

theorem loadData_version_gate_witness:
  "fst (getAllEnvironments linux_rt fresh_store (file_with (json_document doc_v1)))
     = Inr [(venv_key, Some proj_venv), (usr_key, Some usr_python)]
   \<and> fst (loadData linux_rt fresh_store (file_with (json_document doc_v1))) = Inr doc_v1
   \<and> fst (getAllEnvironments linux_rt fresh_store (file_with (json_document doc_no_environments)))
       = Inr []
   \<and> fst (loadData linux_rt fresh_store (file_with (json_document doc_v2))) = Inr createEmptyData
   \<and> fst (getAllEnvironments linux_rt fresh_store (file_with (json_document doc_v2))) = Inr []"
proof -
  have h: "cache fresh_store = None"
    "path_dirname linux_rt (persistenceFilePath fresh_store) \<notin> faults (file_with c)"
    "files (file_with c) (path_dirname linux_rt (persistenceFilePath fresh_store)) = None"
    "persistenceFilePath fresh_store \<notin> faults (file_with c)"
    "files (file_with c) (persistenceFilePath fresh_store) = Some c" for c
    by (simp_all add: example_paths example_files)
  have v: "WslPersistenceData.version doc_v1 = ''1.0''"
    "environments doc_v1 = Some [(venv_key, Some proj_venv), (usr_key, Some usr_python)]"
    "WslPersistenceData.version doc_no_environments = ''1.0''"
    "environments doc_no_environments = None"
    "WslPersistenceData.version doc_v2 \<noteq> ''1.0''"
    by (simp_all add: doc_v1_def doc_v2_def doc_no_environments_def)
  show ?thesis
    using loadData_version_gate [OF h example_parse(5)]
          loadData_version_gate [OF h example_parse(1)]
          loadData_version_gate [OF h example_parse(2)] v
    by blast
qed

text \<open>
  C8. A load changes no file. Its effect on the file system is exactly that, when
  nothing is cached and the directory of the persistence file can be ensured, that
  directory exists afterwards; otherwise the file system is as before. When nothing
  is cached and the persistence file does not exist, the load returns the empty
  document, the file still does not exist afterwards, and the directory does
  whenever it could be ensured.
\<close>

theorem load_touches_only_the_directory:
  "files (snd (snd (loadData rt s w))) = files w
   \<and> faults (snd (snd (loadData rt s w))) = faults w
   \<and> directories (snd (snd (loadData rt s w)))
       = (if cache s = None
             \<and> path_dirname rt (persistenceFilePath s) \<notin> faults w
             \<and> files w (path_dirname rt (persistenceFilePath s)) = None
          then insert (path_dirname rt (persistenceFilePath s)) (directories w)
          else directories w)
   \<and> (cache s = None \<and> files w (persistenceFilePath s) = None \<longrightarrow>
        fst (loadData rt s w) = Inr createEmptyData
        \<and> files (snd (snd (loadData rt s w))) (persistenceFilePath s) = None
        \<and> (path_dirname rt (persistenceFilePath s) \<notin> faults w
             \<and> files w (path_dirname rt (persistenceFilePath s)) = None \<longrightarrow>
               path_dirname rt (persistenceFilePath s)
                 \<in> directories (snd (snd (loadData rt s w)))))"
proof -
  have "fst (loadData rt s w) = Inr createEmptyData"
    if "cache s = None" "files w (persistenceFilePath s) = None"
    using that by (simp add: loadData_uncached stored_document_def)
  then show ?thesis
    by (simp add: loadData_world ensured_def)
qed

theorem load_touches_only_the_directory_witness:
  "cache fresh_store = None \<and> files no_file (persistenceFilePath fresh_store) = None
   \<and> path_dirname linux_rt (persistenceFilePath fresh_store) = ''/data''
   \<and> directories no_file = {}
   \<and> fst (loadData linux_rt fresh_store no_file) = Inr createEmptyData
   \<and> files (snd (snd (loadData linux_rt fresh_store no_file))) = Map.empty
   \<and> files (snd (snd (loadData linux_rt fresh_store no_file))) store_path = None
   \<and> directories (snd (snd (loadData linux_rt fresh_store no_file))) = {''/data''}"
  using load_touches_only_the_directory [of linux_rt fresh_store no_file]
  by (simp add: example_paths example_files)

subsection \<open>Causes of a fallback, and a valid file\<close>

lemma stored_document_None:
  assumes "files w (persistenceFilePath s) = None
           \<or> persistenceFilePath s \<in> faults w
           \<or> path_dirname rt (persistenceFilePath s) \<in> faults w
           \<or> files w (path_dirname rt (persistenceFilePath s)) \<noteq> None
           \<or> (\<exists>content e. files w (persistenceFilePath s) = Some content
                  \<and> JSON_parse rt content = Inl e)
           \<or> (\<exists>content. files w (persistenceFilePath s) = Some content
                  \<and> JSON_parse rt content = Inr None)
           \<or> (\<exists>content doc. files w (persistenceFilePath s) = Some content
                  \<and> JSON_parse rt content = Inr (Some doc)
                  \<and> WslPersistenceData.version doc \<noteq> ''1.0'')"
  shows "stored_document rt s w = None"
  using assms
  by (auto simp: stored_document_def ensured_def CURRENT_VERSION_def
        split: option.splits sum.splits)

lemma load_throws_causes:
  assumes "(files w (persistenceFilePath s) \<noteq> None \<and> persistenceFilePath s \<in> faults w)
           \<or> path_dirname rt (persistenceFilePath s) \<in> faults w
           \<or> files w (path_dirname rt (persistenceFilePath s)) \<noteq> None
           \<or> (\<exists>content e. files w (persistenceFilePath s) = Some content
                  \<and> JSON_parse rt content = Inl e)"
  shows "load_throws rt s w"
  using assms by (auto simp: load_throws_def ensured_def split: option.splits)

lemma clearCache_fields [simp]:
  "cache (clearCache s) = None"
  "persistenceFilePath (clearCache s) = persistenceFilePath s"
  by (simp_all add: clearCache_def)

lemma loadData_reads_valid_document:
  assumes "cache s = None"
    and "path_dirname rt (persistenceFilePath s) \<notin> faults w
         \<and> files w (path_dirname rt (persistenceFilePath s)) = None
         \<and> persistenceFilePath s \<notin> faults w
         \<and> files w (persistenceFilePath s) = Some content
         \<and> JSON_parse rt content = Inr (Some doc)
         \<and> WslPersistenceData.version doc = ''1.0''
         \<and> environments doc = Some envs"
  shows "fst (loadData rt s w) = Inr doc"
    and "fst (getAllEnvironments rt s w) = Inr envs"
    and "fst (snd (loadData rt s w)) = s\<lparr>cache := Some doc\<rparr>"
proof -
  have sd: "stored_document rt s w = Some doc"
    using assms(2) by (simp add: stored_document_read)
  show "fst (loadData rt s w) = Inr doc"
    using assms sd by (simp add: loadData_uncached)
  then show "fst (getAllEnvironments rt s w) = Inr envs"
    using assms(2) by (simp add: getAllEnvironments_result)
  show "fst (snd (loadData rt s w)) = s\<lparr>cache := Some doc\<rparr>"
    using assms(1) sd by (simp add: loadData_uncached)
qed

lemma example_valid_file:
  "path_dirname linux_rt (persistenceFilePath fresh_store) \<notin> faults (file_with (json_document doc_v1))
   \<and> files (file_with (json_document doc_v1))
        (path_dirname linux_rt (persistenceFilePath fresh_store)) = None
   \<and> persistenceFilePath fresh_store \<notin> faults (file_with (json_document doc_v1))
   \<and> files (file_with (json_document doc_v1)) (persistenceFilePath fresh_store)
        = Some (json_document doc_v1)
   \<and> JSON_parse linux_rt (json_document doc_v1) = Inr (Some doc_v1)
   \<and> WslPersistenceData.version doc_v1 = ''1.0''
   \<and> environments doc_v1 = Some [(venv_key, Some proj_venv), (usr_key, Some usr_python)]"
  "path_dirname linux_rt (persistenceFilePath fresh_store)
       \<notin> faults (file_with (json_document doc_later))
   \<and> files (file_with (json_document doc_later))
        (path_dirname linux_rt (persistenceFilePath fresh_store)) = None
   \<and> persistenceFilePath fresh_store \<notin> faults (file_with (json_document doc_later))
   \<and> files (file_with (json_document doc_later)) (persistenceFilePath fresh_store)
        = Some (json_document doc_later)
   \<and> JSON_parse linux_rt (json_document doc_later) = Inr (Some doc_later)
   \<and> WslPersistenceData.version doc_later = ''1.0''
   \<and> environments doc_later = Some [(usr_key, Some usr_python)]"
proof -
  have doc: "WslPersistenceData.version doc_v1 = ''1.0''"
    "environments doc_v1 = Some [(venv_key, Some proj_venv), (usr_key, Some usr_python)]"
    "WslPersistenceData.version doc_later = ''1.0''"
    "environments doc_later = Some [(usr_key, Some usr_python)]"
    by (simp_all add: doc_v1_def doc_later_def)
  show "path_dirname linux_rt (persistenceFilePath fresh_store) \<notin> faults (file_with (json_document doc_v1))
   \<and> files (file_with (json_document doc_v1))
        (path_dirname linux_rt (persistenceFilePath fresh_store)) = None
   \<and> persistenceFilePath fresh_store \<notin> faults (file_with (json_document doc_v1))
   \<and> files (file_with (json_document doc_v1)) (persistenceFilePath fresh_store)
        = Some (json_document doc_v1)
   \<and> JSON_parse linux_rt (json_document doc_v1) = Inr (Some doc_v1)
   \<and> WslPersistenceData.version doc_v1 = ''1.0''
   \<and> environments doc_v1 = Some [(venv_key, Some proj_venv), (usr_key, Some usr_python)]"
    by (simp add: example_paths example_files example_parse doc)
  show "path_dirname linux_rt (persistenceFilePath fresh_store)
       \<notin> faults (file_with (json_document doc_later))
   \<and> files (file_with (json_document doc_later))
        (path_dirname linux_rt (persistenceFilePath fresh_store)) = None
   \<and> persistenceFilePath fresh_store \<notin> faults (file_with (json_document doc_later))
   \<and> files (file_with (json_document doc_later)) (persistenceFilePath fresh_store)
        = Some (json_document doc_later)
   \<and> JSON_parse linux_rt (json_document doc_later) = Inr (Some doc_later)
   \<and> WslPersistenceData.version doc_later = ''1.0''
   \<and> environments doc_later = Some [(usr_key, Some usr_python)]"
    by (simp add: example_paths example_files example_parse doc)
qed

subsection \<open>Cache epochs\<close>

text \<open>
  C7, as stated, fails: a load that falls back to the empty document is not cached.
  A first query finds no file and returns nothing; the producer then writes the file;
  a second query on the same store, with no \<^verbatim>\<open>clearCache\<close> in between, runs the load
  again and returns the new document.
\<close>

theorem load_repeated_within_epoch_counterexample:
  "fst (getAllEnvironments linux_rt fresh_store no_file) = Inr []
   \<and> fst (getAllEnvironments linux_rt
           (fst (snd (getAllEnvironments linux_rt fresh_store no_file)))
           (producer_writes store_path (json_document doc_v1)
              (snd (snd (getAllEnvironments linux_rt fresh_store no_file)))))
       = Inr [(venv_key, Some proj_venv), (usr_key, Some usr_python)]
   \<and> fst (getAllEnvironments linux_rt
           (fst (snd (getAllEnvironments linux_rt fresh_store no_file)))
           (producer_writes store_path (json_document doc_v1)
              (snd (snd (getAllEnvironments linux_rt fresh_store no_file)))))
       \<noteq> fst (getAllEnvironments linux_rt fresh_store no_file)"
proof -
  define w1 where "w1 = snd (snd (getAllEnvironments linux_rt fresh_store no_file))"
  have first: "fst (getAllEnvironments linux_rt fresh_store no_file) = Inr []"
    by (simp add: getAllEnvironments_result loadData_uncached example_paths
          example_stored_document)
  have s1: "fst (snd (getAllEnvironments linux_rt fresh_store no_file)) = fresh_store"
    by (simp add: query_store loadData_uncached example_paths example_stored_document)
  have w1: "files w1 = Map.empty" "faults w1 = {}"
    by (simp_all add: w1_def query_world loadData_world example_files)
  have written: "path_dirname linux_rt (persistenceFilePath fresh_store)
                   \<notin> faults (producer_writes store_path (json_document doc_v1) w1)
      \<and> files (producer_writes store_path (json_document doc_v1) w1)
            (path_dirname linux_rt (persistenceFilePath fresh_store)) = None
      \<and> persistenceFilePath fresh_store
           \<notin> faults (producer_writes store_path (json_document doc_v1) w1)
      \<and> files (producer_writes store_path (json_document doc_v1) w1)
            (persistenceFilePath fresh_store) = Some (json_document doc_v1)
      \<and> JSON_parse linux_rt (json_document doc_v1) = Inr (Some doc_v1)
      \<and> WslPersistenceData.version doc_v1 = ''1.0''
      \<and> environments doc_v1 = Some [(venv_key, Some proj_venv), (usr_key, Some usr_python)]"
  proof -
    have ne: "''/data'' \<noteq> store_path"
      by (simp add: store_path_def)
    have doc: "WslPersistenceData.version doc_v1 = ''1.0''"
      "environments doc_v1 = Some [(venv_key, Some proj_venv), (usr_key, Some usr_python)]"
      by (simp_all add: doc_v1_def)
    show ?thesis
      using ne by (simp add: example_paths example_parse producer_writes_def w1 doc)
  qed
  have second: "fst (getAllEnvironments linux_rt fresh_store
                       (producer_writes store_path (json_document doc_v1) w1))
                  = Inr [(venv_key, Some proj_venv), (usr_key, Some usr_python)]"
    by (rule loadData_reads_valid_document(2) [OF example_paths(2) written])
  show ?thesis
    unfolding s1 using first second by (simp add: w1_def)
qed

text \<open>
  C7, amended. After a query has completed a load that returned the file's document
  (the file was read and parsed, version \<^verbatim>\<open>1.0\<close>, environments present), whichever of
  the four queries it was, the document is cached: every later load returns it
  whatever the file system then holds, leaves the store and the file system as they
  are, and the four queries answer from it alone. After \<^verbatim>\<open>clearCache\<close> the cache is
  unset and the next load reads the file again, so a valid document written in
  between is what it returns. A load that falls back to the empty document because
  the file is absent, its version differs, or reading or parsing it fails (a file
  holding \<^verbatim>\<open>null\<close> included), is not cached: the store is as before after each of
  the four queries, and the next load reads the file system again.
\<close>

theorem cache_epoch:
  assumes "cache s = None"
    and "s1 = fst (snd (loadData rt s w))"
  shows
    "(path_dirname rt (persistenceFilePath s) \<notin> faults w
      \<and> files w (path_dirname rt (persistenceFilePath s)) = None
      \<and> persistenceFilePath s \<notin> faults w
      \<and> files w (persistenceFilePath s) = Some content
      \<and> JSON_parse rt content = Inr (Some doc)
      \<and> WslPersistenceData.version doc = ''1.0''
      \<and> environments doc = Some envs
      \<longrightarrow>
        fst (loadData rt s w) = Inr doc
        \<and> cache s1 = Some doc
        \<and> fst (snd (getAllEnvironments rt s w)) = s1
        \<and> fst (snd (getWorkspaceEnvironments rt s wsPath w)) = s1
        \<and> fst (snd (getEnvironment rt s k w)) = s1
        \<and> fst (snd (hasEnvironment rt s k w)) = s1
        \<and> (\<forall>w2 :: world.
              fst (loadData rt s1 w2) = Inr doc
              \<and> fst (snd (loadData rt s1 w2)) = s1
              \<and> files (snd (snd (loadData rt s1 w2))) = files w2
              \<and> directories (snd (snd (loadData rt s1 w2))) = directories w2
              \<and> fst (getAllEnvironments rt s1 w2) = Inr envs
              \<and> fst (getEnvironment rt s1 k w2) = Inr (get_property envs k)
              \<and> fst (hasEnvironment rt s1 k w2) = Inr (has_property envs k)
              \<and> (\<forall>w3 :: world.
                    fst (getWorkspaceEnvironments rt s1 wsPath w2)
                      = fst (getWorkspaceEnvironments rt s1 wsPath w3)))
        \<and> cache (clearCache s1) = None
        \<and> (\<forall>(w2 :: world) content2 doc2 envs2.
              path_dirname rt (persistenceFilePath s) \<notin> faults w2
              \<and> files w2 (path_dirname rt (persistenceFilePath s)) = None
              \<and> persistenceFilePath s \<notin> faults w2
              \<and> files w2 (persistenceFilePath s) = Some content2
              \<and> JSON_parse rt content2 = Inr (Some doc2)
              \<and> WslPersistenceData.version doc2 = ''1.0''
              \<and> environments doc2 = Some envs2
              \<longrightarrow> fst (loadData rt (clearCache s1) w2) = Inr doc2
                  \<and> fst (getAllEnvironments rt (clearCache s1) w2) = Inr envs2))
   \<and> (files w (persistenceFilePath s) = None
       \<or> (\<exists>content doc. files w (persistenceFilePath s) = Some content
              \<and> JSON_parse rt content = Inr (Some doc)
              \<and> WslPersistenceData.version doc \<noteq> ''1.0'')
       \<or> persistenceFilePath s \<in> faults w
       \<or> path_dirname rt (persistenceFilePath s) \<in> faults w
       \<or> files w (path_dirname rt (persistenceFilePath s)) \<noteq> None
       \<or> (\<exists>content e. files w (persistenceFilePath s) = Some content
              \<and> JSON_parse rt content = Inl e)
       \<or> (\<exists>content. files w (persistenceFilePath s) = Some content
              \<and> JSON_parse rt content = Inr None)
       \<longrightarrow>
         fst (loadData rt s w) = Inr createEmptyData
         \<and> s1 = s
         \<and> cache s1 = None
         \<and> fst (snd (getAllEnvironments rt s w)) = s
         \<and> fst (snd (getWorkspaceEnvironments rt s wsPath w)) = s
         \<and> fst (snd (getEnvironment rt s k w)) = s
         \<and> fst (snd (hasEnvironment rt s k w)) = s
         \<and> (\<forall>(w2 :: world) content2 doc2 envs2.
               path_dirname rt (persistenceFilePath s) \<notin> faults w2
               \<and> files w2 (path_dirname rt (persistenceFilePath s)) = None
               \<and> persistenceFilePath s \<notin> faults w2
               \<and> files w2 (persistenceFilePath s) = Some content2
               \<and> JSON_parse rt content2 = Inr (Some doc2)
               \<and> WslPersistenceData.version doc2 = ''1.0''
               \<and> environments doc2 = Some envs2
               \<longrightarrow> fst (loadData rt s1 w2) = Inr doc2
                   \<and> fst (getAllEnvironments rt s1 w2) = Inr envs2))"
proof (intro conjI impI)
  assume ok: "path_dirname rt (persistenceFilePath s) \<notin> faults w
      \<and> files w (path_dirname rt (persistenceFilePath s)) = None
      \<and> persistenceFilePath s \<notin> faults w
      \<and> files w (persistenceFilePath s) = Some content
      \<and> JSON_parse rt content = Inr (Some doc)
      \<and> WslPersistenceData.version doc = ''1.0''
      \<and> environments doc = Some envs"
  have s1: "s1 = s\<lparr>cache := Some doc\<rparr>"
    using loadData_reads_valid_document(3) [OF assms(1) ok] assms(2) by simp
  have c1: "cache s1 = Some doc" and p1: "persistenceFilePath s1 = persistenceFilePath s"
    by (simp_all add: s1)
  have envs: "environments doc = Some envs"
    using ok by simp
  show "fst (loadData rt s w) = Inr doc"
    by (rule loadData_reads_valid_document(1) [OF assms(1) ok])
  show "cache s1 = Some doc"
    by (rule c1)
  show "fst (snd (getAllEnvironments rt s w)) = s1"
    and "fst (snd (getWorkspaceEnvironments rt s wsPath w)) = s1"
    and "fst (snd (getEnvironment rt s k w)) = s1"
    and "fst (snd (hasEnvironment rt s k w)) = s1"
    by (simp_all add: query_store getWorkspaceEnvironments_store assms(2))
  have cached: "fst (loadData rt s1 w2) = Inr doc" "fst (snd (loadData rt s1 w2)) = s1"
    "files (snd (snd (loadData rt s1 w2))) = files w2"
    "directories (snd (snd (loadData rt s1 w2))) = directories w2" for w2
    by (simp_all add: loadData_cached [OF c1] envs)
  have queries: "fst (getAllEnvironments rt s1 w2) = Inr envs"
    "fst (getEnvironment rt s1 k w2) = Inr (get_property envs k)"
    "fst (hasEnvironment rt s1 k w2) = Inr (has_property envs k)"
    "fst (getWorkspaceEnvironments rt s1 wsPath w2)
       = listed_environments doc (normalizePath rt wsPath)" for w2
    by (simp_all add: getAllEnvironments_result getEnvironment_result hasEnvironment_result
          getWorkspaceEnvironments_result cached envs)
  show "\<forall>w2 :: world.
              fst (loadData rt s1 w2) = Inr doc
              \<and> fst (snd (loadData rt s1 w2)) = s1
              \<and> files (snd (snd (loadData rt s1 w2))) = files w2
              \<and> directories (snd (snd (loadData rt s1 w2))) = directories w2
              \<and> fst (getAllEnvironments rt s1 w2) = Inr envs
              \<and> fst (getEnvironment rt s1 k w2) = Inr (get_property envs k)
              \<and> fst (hasEnvironment rt s1 k w2) = Inr (has_property envs k)
              \<and> (\<forall>w3 :: world.
                    fst (getWorkspaceEnvironments rt s1 wsPath w2)
                      = fst (getWorkspaceEnvironments rt s1 wsPath w3))"
    by (simp add: cached queries)
  show "cache (clearCache s1) = None"
    by simp
  show "\<forall>(w2 :: world) content2 doc2 envs2.
              path_dirname rt (persistenceFilePath s) \<notin> faults w2
              \<and> files w2 (path_dirname rt (persistenceFilePath s)) = None
              \<and> persistenceFilePath s \<notin> faults w2
              \<and> files w2 (persistenceFilePath s) = Some content2
              \<and> JSON_parse rt content2 = Inr (Some doc2)
              \<and> WslPersistenceData.version doc2 = ''1.0''
              \<and> environments doc2 = Some envs2
              \<longrightarrow> fst (loadData rt (clearCache s1) w2) = Inr doc2
                  \<and> fst (getAllEnvironments rt (clearCache s1) w2) = Inr envs2"
  proof (intro allI impI)
    fix w2 :: world and content2 doc2 envs2
    assume v: "path_dirname rt (persistenceFilePath s) \<notin> faults w2
              \<and> files w2 (path_dirname rt (persistenceFilePath s)) = None
              \<and> persistenceFilePath s \<notin> faults w2
              \<and> files w2 (persistenceFilePath s) = Some content2
              \<and> JSON_parse rt content2 = Inr (Some doc2)
              \<and> WslPersistenceData.version doc2 = ''1.0''
              \<and> environments doc2 = Some envs2"
    have c: "cache (clearCache s1) = None"
      by simp
    have v': "path_dirname rt (persistenceFilePath (clearCache s1)) \<notin> faults w2
              \<and> files w2 (path_dirname rt (persistenceFilePath (clearCache s1))) = None
              \<and> persistenceFilePath (clearCache s1) \<notin> faults w2
              \<and> files w2 (persistenceFilePath (clearCache s1)) = Some content2
              \<and> JSON_parse rt content2 = Inr (Some doc2)
              \<and> WslPersistenceData.version doc2 = ''1.0''
              \<and> environments doc2 = Some envs2"
      using v by (simp add: p1)
    show "fst (loadData rt (clearCache s1) w2) = Inr doc2
          \<and> fst (getAllEnvironments rt (clearCache s1) w2) = Inr envs2"
      using loadData_reads_valid_document(1,2) [OF c v'] by simp
  qed
next
  assume "files w (persistenceFilePath s) = None
       \<or> (\<exists>content doc. files w (persistenceFilePath s) = Some content
              \<and> JSON_parse rt content = Inr (Some doc)
              \<and> WslPersistenceData.version doc \<noteq> ''1.0'')
       \<or> persistenceFilePath s \<in> faults w
       \<or> path_dirname rt (persistenceFilePath s) \<in> faults w
       \<or> files w (path_dirname rt (persistenceFilePath s)) \<noteq> None
       \<or> (\<exists>content e. files w (persistenceFilePath s) = Some content
              \<and> JSON_parse rt content = Inl e)
       \<or> (\<exists>content. files w (persistenceFilePath s) = Some content
              \<and> JSON_parse rt content = Inr None)"
  then have none: "stored_document rt s w = None"
    by (intro stored_document_None) blast
  show "fst (loadData rt s w) = Inr createEmptyData"
    using assms(1) none by (simp add: loadData_uncached)
  show same: "s1 = s"
    using assms none by (simp add: loadData_uncached)
  show "cache s1 = None"
    using assms(1) same by simp
  show "fst (snd (getAllEnvironments rt s w)) = s"
    and "fst (snd (getWorkspaceEnvironments rt s wsPath w)) = s"
    and "fst (snd (getEnvironment rt s k w)) = s"
    and "fst (snd (hasEnvironment rt s k w)) = s"
    using same assms(2) by (simp_all add: query_store getWorkspaceEnvironments_store)
  show "\<forall>(w2 :: world) content2 doc2 envs2.
               path_dirname rt (persistenceFilePath s) \<notin> faults w2
               \<and> files w2 (path_dirname rt (persistenceFilePath s)) = None
               \<and> persistenceFilePath s \<notin> faults w2
               \<and> files w2 (persistenceFilePath s) = Some content2
               \<and> JSON_parse rt content2 = Inr (Some doc2)
               \<and> WslPersistenceData.version doc2 = ''1.0''
               \<and> environments doc2 = Some envs2
               \<longrightarrow> fst (loadData rt s1 w2) = Inr doc2
                   \<and> fst (getAllEnvironments rt s1 w2) = Inr envs2"
    unfolding same
    using loadData_reads_valid_document(1,2) [OF assms(1)] by blast
qed

theorem cache_epoch_witness:
  "fst (loadData linux_rt fresh_store (file_with (json_document doc_v1))) = Inr doc_v1
   \<and> cache (fst (snd (loadData linux_rt fresh_store (file_with (json_document doc_v1)))))
       = Some doc_v1
   \<and> fst (getAllEnvironments linux_rt
            (fst (snd (loadData linux_rt fresh_store (file_with (json_document doc_v1)))))
            (file_with (json_document doc_later)))
       = Inr [(venv_key, Some proj_venv), (usr_key, Some usr_python)]
   \<and> fst (getAllEnvironments linux_rt
            (clearCache
               (fst (snd (loadData linux_rt fresh_store (file_with (json_document doc_v1))))))
            (file_with (json_document doc_later)))
       = Inr [(usr_key, Some usr_python)]
   \<and> fst (loadData linux_rt fresh_store no_file) = Inr createEmptyData
   \<and> fst (snd (loadData linux_rt fresh_store no_file)) = fresh_store
   \<and> fst (getAllEnvironments linux_rt (fst (snd (loadData linux_rt fresh_store no_file)))
            (file_with (json_document doc_v1)))
       = Inr [(venv_key, Some proj_venv), (usr_key, Some usr_python)]"
proof -
  note loaded = cache_epoch [where s = fresh_store and rt = linux_rt
      and w = "file_with (json_document doc_v1)" and content = "json_document doc_v1"
      and doc = doc_v1 and envs = "[(venv_key, Some proj_venv), (usr_key, Some usr_python)]"
      and k = venv_key and wsPath = "''/home/u/proj''",
      OF example_paths(2) refl, THEN conjunct1, rule_format, OF example_valid_file(1)]
  note absent = cache_epoch [where s = fresh_store and rt = linux_rt
      and w = no_file and k = venv_key and wsPath = "''/home/u/proj''",
      OF example_paths(2) refl, THEN conjunct2, rule_format]
  have none: "files no_file (persistenceFilePath fresh_store) = None"
    by (simp add: example_files)
  have a: "fst (loadData linux_rt fresh_store (file_with (json_document doc_v1))) = Inr doc_v1"
    using loaded by blast
  have b: "cache (fst (snd (loadData linux_rt fresh_store (file_with (json_document doc_v1)))))
             = Some doc_v1"
    using loaded by blast
  have c: "fst (getAllEnvironments linux_rt
            (fst (snd (loadData linux_rt fresh_store (file_with (json_document doc_v1)))))
            (file_with (json_document doc_later)))
       = Inr [(venv_key, Some proj_venv), (usr_key, Some usr_python)]"
    using loaded by blast
  have d: "fst (getAllEnvironments linux_rt
            (clearCache
               (fst (snd (loadData linux_rt fresh_store (file_with (json_document doc_v1))))))
            (file_with (json_document doc_later)))
       = Inr [(usr_key, Some usr_python)]"
    using loaded example_valid_file(2) by blast
  have e: "fst (loadData linux_rt fresh_store no_file) = Inr createEmptyData"
    using absent none by blast
  have f: "fst (snd (loadData linux_rt fresh_store no_file)) = fresh_store"
    using absent none by blast
  have g: "fst (getAllEnvironments linux_rt (fst (snd (loadData linux_rt fresh_store no_file)))
            (file_with (json_document doc_v1)))
       = Inr [(venv_key, Some proj_venv), (usr_key, Some usr_python)]"
    using absent none example_valid_file(1) by blast
  show ?thesis
    using a b c d e f g by blast
qed

subsection \<open>A document without environments\<close>

text \<open>
  C9 says that after a load that returned the empty fallback document the cache is
  unset, so the next query reads the file system again. The code breaks this for a
  file that parses to an object of version \<^verbatim>\<open>1.0\<close> without an \<^verbatim>\<open>environments\<close> member
  (the file \<^verbatim>\<open>{"version":"1.0"}\<close>): the cache is assigned before the count of the
  environments is taken, the count throws, and the \<^verbatim>\<open>catch\<close> returns the empty
  document with the cache set. From then on the load answers from the cache: it reads
  nothing from the file system and throws where it counts the environments, outside
  any \<^verbatim>\<open>try\<close>, so all four queries reject whatever the file then holds, until
  \<^verbatim>\<open>clearCache\<close>.
\<close>

theorem fallback_load_sets_cache:
  assumes "cache s = None"
    and "path_dirname rt (persistenceFilePath s) \<notin> faults w
         \<and> files w (path_dirname rt (persistenceFilePath s)) = None
         \<and> persistenceFilePath s \<notin> faults w
         \<and> files w (persistenceFilePath s) = Some content
         \<and> JSON_parse rt content = Inr (Some doc)
         \<and> WslPersistenceData.version doc = ''1.0''
         \<and> environments doc = None"
    and "s1 = fst (snd (loadData rt s w))"
  shows "fst (loadData rt s w) = Inr createEmptyData
         \<and> cache s1 = Some doc
         \<and> (\<exists>m. errors_logged (snd (snd (loadData rt s w))) = errors_logged w @ [m])
         \<and> (\<forall>w2 :: world.
               fst (loadData rt s1 w2)
                 = Inl (TypeError ''Cannot convert undefined or null to object'')
               \<and> fst (snd (loadData rt s1 w2)) = s1
               \<and> files (snd (snd (loadData rt s1 w2))) = files w2
               \<and> directories (snd (snd (loadData rt s1 w2))) = directories w2
               \<and> errors_logged (snd (snd (loadData rt s1 w2))) = errors_logged w2
               \<and> fst (getAllEnvironments rt s1 w2)
                   = Inl (TypeError ''Cannot convert undefined or null to object'')
               \<and> fst (getWorkspaceEnvironments rt s1 wsPath w2)
                   = Inl (TypeError ''Cannot convert undefined or null to object'')
               \<and> fst (getEnvironment rt s1 k w2)
                   = Inl (TypeError ''Cannot convert undefined or null to object'')
               \<and> fst (hasEnvironment rt s1 k w2)
                   = Inl (TypeError ''Cannot convert undefined or null to object''))"
proof -
  have sd: "stored_document rt s w = Some doc"
    using assms(2) by (simp add: stored_document_read)
  have throws: "load_throws rt s w"
    using assms(2) by (simp add: load_throws_def ensured_def CURRENT_VERSION_def)
  have s1: "s1 = s\<lparr>cache := Some doc\<rparr>"
    using assms(1,3) sd by (simp add: loadData_uncached)
  have c1: "cache s1 = Some doc"
    by (simp add: s1)
  have none: "environments doc = None"
    using assms(2) by simp
  have first: "fst (loadData rt s w) = Inr createEmptyData"
    using assms(1,2) sd by (simp add: loadData_uncached)
  have logged: "\<exists>m. errors_logged (snd (snd (loadData rt s w))) = errors_logged w @ [m]"
    using loadData_errors_logged [of rt s w] assms(1) throws by auto
  have cached: "fst (loadData rt s1 w2)
                  = Inl (TypeError ''Cannot convert undefined or null to object'')"
    "fst (snd (loadData rt s1 w2)) = s1"
    "files (snd (snd (loadData rt s1 w2))) = files w2"
    "directories (snd (snd (loadData rt s1 w2))) = directories w2"
    "errors_logged (snd (snd (loadData rt s1 w2))) = errors_logged w2" for w2
    by (simp_all add: loadData_cached [OF c1] none)
  have queries: "fst (getAllEnvironments rt s1 w2)
                   = Inl (TypeError ''Cannot convert undefined or null to object'')"
    "fst (getWorkspaceEnvironments rt s1 wsPath w2)
       = Inl (TypeError ''Cannot convert undefined or null to object'')"
    "fst (getEnvironment rt s1 k w2)
       = Inl (TypeError ''Cannot convert undefined or null to object'')"
    "fst (hasEnvironment rt s1 k w2)
       = Inl (TypeError ''Cannot convert undefined or null to object'')" for w2
    by (simp_all add: getAllEnvironments_result getWorkspaceEnvironments_result
          getEnvironment_result hasEnvironment_result cached)
  show ?thesis
    using first c1 logged cached queries by blast
qed

theorem fallback_load_sets_cache_witness:
  "fst (loadData linux_rt fresh_store (file_with (json_document doc_no_environments)))
     = Inr createEmptyData
   \<and> cache (fst (snd (loadData linux_rt fresh_store
                        (file_with (json_document doc_no_environments)))))
       = Some doc_no_environments
   \<and> fst (getAllEnvironments linux_rt
            (fst (snd (loadData linux_rt fresh_store
                         (file_with (json_document doc_no_environments)))))
            (file_with (json_document doc_v1)))
       = Inl (TypeError ''Cannot convert undefined or null to object'')
   \<and> fst (hasEnvironment linux_rt
            (fst (snd (loadData linux_rt fresh_store
                         (file_with (json_document doc_no_environments)))))
            venv_key
            (file_with (json_document doc_v1)))
       = Inl (TypeError ''Cannot convert undefined or null to object'')"
proof -
  have readable: "path_dirname linux_rt (persistenceFilePath fresh_store)
         \<notin> faults (file_with (json_document doc_no_environments))
      \<and> files (file_with (json_document doc_no_environments))
           (path_dirname linux_rt (persistenceFilePath fresh_store)) = None
      \<and> persistenceFilePath fresh_store \<notin> faults (file_with (json_document doc_no_environments))
      \<and> files (file_with (json_document doc_no_environments)) (persistenceFilePath fresh_store)
           = Some (json_document doc_no_environments)
      \<and> JSON_parse linux_rt (json_document doc_no_environments) = Inr (Some doc_no_environments)
      \<and> WslPersistenceData.version doc_no_environments = ''1.0''
      \<and> environments doc_no_environments = None"
  proof -
    have doc: "WslPersistenceData.version doc_no_environments = ''1.0''"
      "environments doc_no_environments = None"
      by (simp_all add: doc_no_environments_def)
    show ?thesis
      by (simp add: example_paths example_files example_parse doc)
  qed
  note bug = fallback_load_sets_cache [where s = fresh_store and rt = linux_rt
      and w = "file_with (json_document doc_no_environments)"
      and wsPath = "''/home/u/proj''" and k = venv_key,
      OF example_paths(2) readable refl]
  show ?thesis
    using bug by blast
qed

subsection \<open>Lookups through the prototype chain\<close>

lemma has_property_own:
  "map_of obj key = Some v \<Longrightarrow> has_property obj key"
  by (auto simp: has_property_def dest: map_of_SomeD intro: rev_image_eqI)

lemma has_property_not_own:
  "key \<notin> fst ` set obj \<Longrightarrow> has_property obj key \<longleftrightarrow> key \<in> set Object_prototype_names"
  by (simp add: has_property_def)

text \<open>
  C10 says that \<^verbatim>\<open>hasEnvironment(k)\<close> is true exactly when \<^verbatim>\<open>getEnvironment(k)\<close>
  returns a record, the one stored under \<^verbatim>\<open>k\<close>. The code holds to it for a key
  with a record stored under it, and for a key that is neither stored nor the name of
  a member of \<^verbatim>\<open>Object.prototype\<close>. For the name of such a member with nothing
  stored under it (\<^verbatim>\<open>constructor\<close>, \<^verbatim>\<open>toString\<close>, ...) the \<^verbatim>\<open>in\<close> operator and the
  property read both go through the prototype chain: \<^verbatim>\<open>hasEnvironment\<close> returns true
  and \<^verbatim>\<open>getEnvironment\<close> returns the inherited member, which is no record and is
  not stored in the document.
\<close>

theorem hasEnvironment_getEnvironment:
  assumes "fst (loadData rt s w) = Inr data"
    and "environments data = Some envs"
  shows "(map_of envs k = Some (Some r) \<longrightarrow>
            fst (hasEnvironment rt s k w) = Inr True
            \<and> fst (getEnvironment rt s k w) = Inr (Own (Some r)))
         \<and> (k \<notin> fst ` set envs \<and> k \<notin> set Object_prototype_names \<longrightarrow>
              fst (hasEnvironment rt s k w) = Inr False
              \<and> fst (getEnvironment rt s k w) = Inr NoProperty)
         \<and> (k \<notin> fst ` set envs \<and> k \<in> set Object_prototype_names \<longrightarrow>
              fst (hasEnvironment rt s k w) = Inr True
              \<and> fst (getEnvironment rt s k w) = Inr (Inherited k)
              \<and> map_of envs k = None)"
proof (intro conjI impI)
  assume "map_of envs k = Some (Some r)"
  then show "fst (hasEnvironment rt s k w) = Inr True"
    and "fst (getEnvironment rt s k w) = Inr (Own (Some r))"
    using assms
    by (simp_all add: hasEnvironment_result getEnvironment_result has_property_own
          get_property_simps)
next
  assume "k \<notin> fst ` set envs \<and> k \<notin> set Object_prototype_names"
  then show "fst (hasEnvironment rt s k w) = Inr False"
    and "fst (getEnvironment rt s k w) = Inr NoProperty"
    using assms
    by (simp_all add: hasEnvironment_result getEnvironment_result has_property_not_own
          get_property_simps)
next
  assume k: "k \<notin> fst ` set envs \<and> k \<in> set Object_prototype_names"
  then show "fst (hasEnvironment rt s k w) = Inr True"
    and "fst (getEnvironment rt s k w) = Inr (Inherited k)"
    using assms
    by (simp_all add: hasEnvironment_result getEnvironment_result has_property_not_own
          get_property_simps)
  show "map_of envs k = None"
    using k by (simp add: map_of_eq_None_iff)
qed

theorem hasEnvironment_getEnvironment_witness:
  "fst (hasEnvironment linux_rt fresh_store ''constructor'' (file_with (json_document doc_v1)))
     = Inr True
   \<and> fst (getEnvironment linux_rt fresh_store ''constructor'' (file_with (json_document doc_v1)))
       = Inr (Inherited ''constructor'')
   \<and> map_of [(venv_key, Some proj_venv), (usr_key, Some usr_python)] ''constructor'' = None
   \<and> fst (hasEnvironment linux_rt fresh_store venv_key (file_with (json_document doc_v1)))
       = Inr True
   \<and> fst (getEnvironment linux_rt fresh_store venv_key (file_with (json_document doc_v1)))
       = Inr (Own (Some proj_venv))"
proof -
  have loaded: "fst (loadData linux_rt fresh_store (file_with (json_document doc_v1))) = Inr doc_v1"
    by (rule loadData_reads_valid_document(1) [OF example_paths(2) example_valid_file(1)])
  have envs: "environments doc_v1 = Some [(venv_key, Some proj_venv), (usr_key, Some usr_python)]"
    by (simp add: doc_v1_def)
  have inherited: "''constructor'' \<notin> fst ` set [(venv_key, Some proj_venv), (usr_key, Some usr_python)]
                   \<and> ''constructor'' \<in> set Object_prototype_names"
    by (simp add: venv_key_def usr_key_def Object_prototype_names_def)
  have own: "map_of [(venv_key, Some proj_venv), (usr_key, Some usr_python)] venv_key
               = Some (Some proj_venv)"
    by simp
  show ?thesis
    using hasEnvironment_getEnvironment [OF loaded envs, where k = "''constructor''"]
      hasEnvironment_getEnvironment [OF loaded envs, where k = venv_key and r = proj_venv]
      inherited own
    by blast
qed

text \<open>
  C3 says that \<^verbatim>\<open>getWorkspaceEnvironments(p)\<close> returns the empty list when the
  normalized path is no key of the workspace mapping, and otherwise the records found
  under the listed keys, in order, skipping the keys with no record. The code holds to
  it except where a lookup falls through to \<^verbatim>\<open>Object.prototype\<close>. A path that
  normalizes to the name of an inherited member and is no key of the mapping
  (\<^verbatim>\<open>constructor\<close>) finds that member instead of nothing: it is truthy, so the
  empty-list default is not taken, and iterating it throws; the query rejects. A
  listed key that names an inherited member and has no record finds the member, which
  is truthy, and it is pushed into the result instead of being skipped.
\<close>

theorem getWorkspaceEnvironments_lookup:
  assumes "fst (loadData rt s w) = Inr data"
    and "workspaceMapping data = Some mapping"
    and "environments data = Some envs"
  shows "(normalizePath rt wsPath \<notin> fst ` set mapping
            \<and> normalizePath rt wsPath \<notin> set Object_prototype_names \<longrightarrow>
              fst (getWorkspaceEnvironments rt s wsPath w) = Inr [])
         \<and> (normalizePath rt wsPath \<notin> fst ` set mapping
              \<and> normalizePath rt wsPath \<in> set Object_prototype_names \<longrightarrow>
                fst (getWorkspaceEnvironments rt s wsPath w)
                  = Inl (TypeError ''envIds is not iterable''))
         \<and> (map_of mapping (normalizePath rt wsPath) = Some envIds \<longrightarrow>
              fst (getWorkspaceEnvironments rt s wsPath w)
                = Inr (List.map_filter
                         (\<lambda>envId. case map_of envs envId of
                                     Some (Some env) \<Rightarrow> Some (Record env)
                                   | Some None \<Rightarrow> None
                                   | None \<Rightarrow>
                                       if envId \<in> set Object_prototype_names
                                       then Some (Member envId) else None)
                         envIds))"
proof (intro conjI impI)
  assume "normalizePath rt wsPath \<notin> fst ` set mapping
            \<and> normalizePath rt wsPath \<notin> set Object_prototype_names"
  then show "fst (getWorkspaceEnvironments rt s wsPath w) = Inr []"
    using assms
    by (simp add: getWorkspaceEnvironments_result listed_environments_def get_property_simps)
next
  assume "normalizePath rt wsPath \<notin> fst ` set mapping
            \<and> normalizePath rt wsPath \<in> set Object_prototype_names"
  then show "fst (getWorkspaceEnvironments rt s wsPath w)
               = Inl (TypeError ''envIds is not iterable'')"
    using assms
    by (simp add: getWorkspaceEnvironments_result listed_environments_def get_property_simps)
next
  assume "map_of mapping (normalizePath rt wsPath) = Some envIds"
  moreover have "(\<lambda>envId. case get_property envs envId of
                             Own (Some env) \<Rightarrow> Some (Record env)
                           | Inherited key \<Rightarrow> Some (Member key)
                           | _ \<Rightarrow> None)
                 = (\<lambda>envId. case map_of envs envId of
                              Some (Some env) \<Rightarrow> Some (Record env)
                            | Some None \<Rightarrow> None
                            | None \<Rightarrow>
                                if envId \<in> set Object_prototype_names
                                then Some (Member envId) else None)"
    by (rule ext) (simp add: get_property_def split: option.splits)
  ultimately show "fst (getWorkspaceEnvironments rt s wsPath w)
      = Inr (List.map_filter
               (\<lambda>envId. case map_of envs envId of
                           Some (Some env) \<Rightarrow> Some (Record env)
                         | Some None \<Rightarrow> None
                         | None \<Rightarrow>
                             if envId \<in> set Object_prototype_names
                             then Some (Member envId) else None)
               envIds)"
    using assms
    by (simp add: getWorkspaceEnvironments_result listed_environments_def get_property_simps
          pushed_def)
qed

theorem getWorkspaceEnvironments_lookup_witness:
  "fst (getWorkspaceEnvironments linux_rt fresh_store ''constructor''
          (file_with (json_document doc_v1)))
     = Inl (TypeError ''envIds is not iterable'')
   \<and> fst (getWorkspaceEnvironments linux_rt fresh_store ''/elsewhere''
            (file_with (json_document doc_v1)))
       = Inr []
   \<and> fst (getWorkspaceEnvironments linux_rt fresh_store ''/home/u/proj''
            (file_with (json_document doc_v1)))
       = Inr [Record usr_python, Record proj_venv]
   \<and> fst (getWorkspaceEnvironments linux_rt fresh_store ''/home/u/proj''
            (file_with (json_document doc_member_listed)))
       = Inr [Member ''toString'', Record proj_venv]"
proof -
  have loaded: "fst (loadData linux_rt fresh_store (file_with (json_document doc_v1))) = Inr doc_v1"
    by (rule loadData_reads_valid_document(1) [OF example_paths(2) example_valid_file(1)])
  have doc: "workspaceMapping doc_v1
               = Some [(''/home/u/proj'', [usr_key, ''wsl:Debian:/gone'', venv_key])]"
    "environments doc_v1 = Some [(venv_key, Some proj_venv), (usr_key, Some usr_python)]"
    by (simp_all add: doc_v1_def)
  have member_doc: "WslPersistenceData.version doc_member_listed = ''1.0''"
    "workspaceMapping doc_member_listed = Some [(''/home/u/proj'', [''toString'', venv_key])]"
    "environments doc_member_listed = Some [(venv_key, Some proj_venv)]"
    by (simp_all add: doc_member_listed_def)
  have "stored_document linux_rt fresh_store (file_with (json_document doc_member_listed))
          = Some doc_member_listed"
    by (simp add: example_stored_document example_parse member_doc)
  then have loaded_member:
    "fst (loadData linux_rt fresh_store (file_with (json_document doc_member_listed)))
       = Inr doc_member_listed"
    by (simp add: loadData_uncached example_paths member_doc)
  note v1 = getWorkspaceEnvironments_lookup [OF loaded doc]
  note listed = getWorkspaceEnvironments_lookup [OF loaded_member member_doc(2,3)]
  have a: "fst (getWorkspaceEnvironments linux_rt fresh_store ''constructor''
                  (file_with (json_document doc_v1)))
             = Inl (TypeError ''envIds is not iterable'')"
    using v1 [where wsPath = "''constructor''"]
    by (simp add: example_paths Object_prototype_names_def)
  have b: "fst (getWorkspaceEnvironments linux_rt fresh_store ''/elsewhere''
                  (file_with (json_document doc_v1)))
             = Inr []"
    using v1 [where wsPath = "''/elsewhere''"]
    by (simp add: example_paths Object_prototype_names_def)
  have c: "fst (getWorkspaceEnvironments linux_rt fresh_store ''/home/u/proj''
                  (file_with (json_document doc_v1)))
             = Inr [Record usr_python, Record proj_venv]"
    using v1 [where wsPath = "''/home/u/proj''"
        and envIds = "[usr_key, ''wsl:Debian:/gone'', venv_key]"]
    by (simp add: example_paths Object_prototype_names_def List.map_filter_simps
          venv_key_def usr_key_def)
  have d: "fst (getWorkspaceEnvironments linux_rt fresh_store ''/home/u/proj''
                  (file_with (json_document doc_member_listed)))
             = Inr [Member ''toString'', Record proj_venv]"
    using listed [where wsPath = "''/home/u/proj''" and envIds = "[''toString'', venv_key]"]
    by (simp add: example_paths Object_prototype_names_def List.map_filter_simps venv_key_def)
  show ?thesis
    using a b c d by blast
qed

text \<open>
  C6 says that with the file absent, or unreadable, or unparsable, the four queries
  answer as from the empty document (nothing, the empty list, absent, false) and
  never reject. The load does fall back to the empty document, with the failure
  logged, and \<^verbatim>\<open>getAllEnvironments\<close> returns nothing. The other three queries then
  look their key up in an empty object through the prototype chain: for a key that
  names no member of \<^verbatim>\<open>Object.prototype\<close> they answer as the claim says; for
  \<^verbatim>\<open>toString\<close>, \<^verbatim>\<open>constructor\<close> and the like \<^verbatim>\<open>hasEnvironment\<close> returns true,
  \<^verbatim>\<open>getEnvironment\<close> returns the inherited member, and
  \<^verbatim>\<open>getWorkspaceEnvironments\<close> rejects with a \<^verbatim>\<open>TypeError\<close>.
\<close>

theorem store_queries_fall_back:
  assumes "cache s = None"
    and "files w (persistenceFilePath s) = None
         \<or> persistenceFilePath s \<in> faults w
         \<or> path_dirname rt (persistenceFilePath s) \<in> faults w
         \<or> files w (path_dirname rt (persistenceFilePath s)) \<noteq> None
         \<or> (\<exists>content e. files w (persistenceFilePath s) = Some content
                \<and> JSON_parse rt content = Inl e)"
  shows "fst (loadData rt s w) = Inr createEmptyData
         \<and> fst (getAllEnvironments rt s w) = Inr []
         \<and> (k \<notin> set Object_prototype_names \<longrightarrow>
              fst (getEnvironment rt s k w) = Inr NoProperty
              \<and> fst (hasEnvironment rt s k w) = Inr False)
         \<and> (normalizePath rt wsPath \<notin> set Object_prototype_names \<longrightarrow>
              fst (getWorkspaceEnvironments rt s wsPath w) = Inr [])
         \<and> (k \<in> set Object_prototype_names \<longrightarrow>
              fst (getEnvironment rt s k w) = Inr (Inherited k)
              \<and> fst (hasEnvironment rt s k w) = Inr True)
         \<and> (normalizePath rt wsPath \<in> set Object_prototype_names \<longrightarrow>
              fst (getWorkspaceEnvironments rt s wsPath w)
                = Inl (TypeError ''envIds is not iterable''))
         \<and> ((files w (persistenceFilePath s) \<noteq> None \<and> persistenceFilePath s \<in> faults w)
             \<or> path_dirname rt (persistenceFilePath s) \<in> faults w
             \<or> files w (path_dirname rt (persistenceFilePath s)) \<noteq> None
             \<or> (\<exists>content e. files w (persistenceFilePath s) = Some content
                    \<and> JSON_parse rt content = Inl e)
             \<longrightarrow>
               (\<exists>m. errors_logged (snd (snd (getAllEnvironments rt s w)))
                       = errors_logged w @ [m])
               \<and> (\<exists>m. errors_logged (snd (snd (getEnvironment rt s k w)))
                         = errors_logged w @ [m])
               \<and> (\<exists>m. errors_logged (snd (snd (hasEnvironment rt s k w)))
                         = errors_logged w @ [m]))"
proof -
  have none: "stored_document rt s w = None"
    using assms(2) by (intro stored_document_None) blast
  have empty: "fst (loadData rt s w) = Inr createEmptyData"
    using assms(1) none by (simp add: loadData_uncached)
  have all: "fst (getAllEnvironments rt s w) = Inr []"
    by (simp add: getAllEnvironments_result empty)
  have plain: "fst (getEnvironment rt s k w) = Inr NoProperty"
    "fst (hasEnvironment rt s k w) = Inr False"
    if "k \<notin> set Object_prototype_names"
    using that
    by (simp_all add: getEnvironment_result hasEnvironment_result empty get_property_simps
          has_property_def)
  have plain_ws: "fst (getWorkspaceEnvironments rt s wsPath w) = Inr []"
    if "normalizePath rt wsPath \<notin> set Object_prototype_names"
    using that
    by (simp add: getWorkspaceEnvironments_result empty listed_environments_def
          get_property_simps)
  have inherited: "fst (getEnvironment rt s k w) = Inr (Inherited k)"
    "fst (hasEnvironment rt s k w) = Inr True"
    if "k \<in> set Object_prototype_names"
    using that
    by (simp_all add: getEnvironment_result hasEnvironment_result empty get_property_simps
          has_property_def)
  have inherited_ws: "fst (getWorkspaceEnvironments rt s wsPath w)
                        = Inl (TypeError ''envIds is not iterable'')"
    if "normalizePath rt wsPath \<in> set Object_prototype_names"
    using that
    by (simp add: getWorkspaceEnvironments_result empty listed_environments_def
          get_property_simps)
  have logged: "\<exists>m. errors_logged (snd (snd (loadData rt s w))) = errors_logged w @ [m]"
    if "load_throws rt s w"
    using loadData_errors_logged [of rt s w] assms(1) that by auto
  show ?thesis
    using empty all plain plain_ws inherited inherited_ws logged load_throws_causes [of w s rt]
    by (simp only: query_world) blast
qed

theorem store_queries_fall_back_witness:
  "fst (getAllEnvironments linux_rt fresh_store no_file) = Inr []
   \<and> fst (hasEnvironment linux_rt fresh_store ''toString'' no_file) = Inr True
   \<and> fst (getEnvironment linux_rt fresh_store ''toString'' no_file) = Inr (Inherited ''toString'')
   \<and> fst (getWorkspaceEnvironments linux_rt fresh_store ''constructor'' no_file)
       = Inl (TypeError ''envIds is not iterable'')
   \<and> fst (hasEnvironment linux_rt fresh_store venv_key no_file) = Inr False
   \<and> fst (getEnvironment linux_rt fresh_store venv_key no_file) = Inr NoProperty
   \<and> fst (getWorkspaceEnvironments linux_rt fresh_store ''/home/u/proj'' no_file) = Inr []
   \<and> fst (getAllEnvironments linux_rt fresh_store (file_with ''{'')) = Inr []
   \<and> (\<exists>m. errors_logged (snd (snd (getAllEnvironments linux_rt fresh_store (file_with ''{''))))
            = [m])
   \<and> fst (hasEnvironment linux_rt fresh_store ''toString'' (file_with ''{'')) = Inr True
   \<and> fst (getAllEnvironments linux_rt fresh_store denied) = Inr []"
proof -
  have absent: "files no_file (persistenceFilePath fresh_store) = None"
    by (simp add: example_files)
  have bad: "files (file_with ''{'') (persistenceFilePath fresh_store) = Some ''{''
             \<and> JSON_parse linux_rt ''{'' = Inl syntax_error"
    by (simp add: example_paths example_files example_parse)
  have d: "persistenceFilePath fresh_store \<in> faults denied"
    by (simp add: denied_def example_paths)
  have names: "''toString'' \<in> set Object_prototype_names"
    "''constructor'' \<in> set Object_prototype_names"
    "venv_key \<notin> set Object_prototype_names"
    "''/home/u/proj'' \<notin> set Object_prototype_names"
    by (simp_all add: Object_prototype_names_def venv_key_def)
  have l: "errors_logged (file_with ''{'') = []"
    by (simp add: example_files)
  have 1: "fst (getAllEnvironments linux_rt fresh_store no_file) = Inr []
   \<and> fst (hasEnvironment linux_rt fresh_store ''toString'' no_file) = Inr True
   \<and> fst (getEnvironment linux_rt fresh_store ''toString'' no_file) = Inr (Inherited ''toString'')
   \<and> fst (getWorkspaceEnvironments linux_rt fresh_store ''constructor'' no_file)
       = Inl (TypeError ''envIds is not iterable'')"
    using store_queries_fall_back [OF example_paths(2), where w = no_file and rt = linux_rt
        and k = "''toString''" and wsPath = "''constructor''"] absent names
    by (simp only: example_paths) blast
  have 2: "fst (hasEnvironment linux_rt fresh_store venv_key no_file) = Inr False
   \<and> fst (getEnvironment linux_rt fresh_store venv_key no_file) = Inr NoProperty
   \<and> fst (getWorkspaceEnvironments linux_rt fresh_store ''/home/u/proj'' no_file) = Inr []"
    using store_queries_fall_back [OF example_paths(2), where w = no_file and rt = linux_rt
        and k = venv_key and wsPath = "''/home/u/proj''"] absent names
    by (simp only: example_paths) blast
  have 3: "fst (getAllEnvironments linux_rt fresh_store (file_with ''{'')) = Inr []
   \<and> (\<exists>m. errors_logged (snd (snd (getAllEnvironments linux_rt fresh_store (file_with ''{''))))
            = [m])
   \<and> fst (hasEnvironment linux_rt fresh_store ''toString'' (file_with ''{'')) = Inr True"
    using store_queries_fall_back [OF example_paths(2), where w = "file_with ''{''"
        and rt = linux_rt and k = "''toString''" and wsPath = "''constructor''"] bad names
    unfolding l by (simp only: append_Nil) blast
  have 4: "fst (getAllEnvironments linux_rt fresh_store denied) = Inr []"
    using store_queries_fall_back [OF example_paths(2), where w = denied and rt = linux_rt
        and k = venv_key and wsPath = "''/home/u/proj''"] d
    by blast
  show ?thesis
    using 1 2 3 4 by blast
qed

subsection \<open>Discovery over all stored records\<close>

lemma convertToPythonEnvironment_result:
  "fst (convertToPythonEnvironment d info envId w) = converted d envId info"
  by (simp add: convertToPythonEnvironment_def converted_def split: sum.splits)

lemma convertEntries_null_record:
  "(k, None) \<in> set entries \<Longrightarrow> isl (fst (convertEntries d entries acc w))"
proof (induction entries arbitrary: acc w)
  case Nil
  then show ?case by simp
next
  case (Cons entry entries)
  obtain envId r where entry: "entry = (envId, r)"
    by (cases entry)
  show ?case
  proof (cases r)
    case None
    then show ?thesis by (simp add: entry)
  next
    case (Some info)
    then have "(k, None) \<in> set entries"
      using Cons.prems entry by auto
    then show ?thesis
      using Cons.IH by (simp add: entry Some Let_def split: prod.splits option.splits)
  qed
qed

lemma convertEntries_records:
  "\<forall>entry \<in> set entries. snd entry \<noteq> None \<Longrightarrow>
     fst (convertEntries d entries acc w)
       = Inr (acc @ List.map_filter (\<lambda>entry. converted d (fst entry) (the (snd entry))) entries)"
proof (induction entries arbitrary: acc w)
  case Nil
  show ?case by (simp add: List.map_filter_simps)
next
  case (Cons entry entries)
  obtain envId info where entry: "entry = (envId, Some info)"
    using Cons.prems by (cases entry) auto
  have rest: "\<forall>entry \<in> set entries. snd entry \<noteq> None"
    using Cons.prems by simp
  let ?w4 = "traceInfo (''[WSL Discovery]   - Workspace: ''
                 @ or_default (workspacePath info) ''N/A'')
               (traceInfo (''[WSL Discovery]   - WSL Path: '' @ wslPath info)
                 (traceInfo (''[WSL Discovery]   - Distro: '' @ distro info)
                   (traceInfo (''[WSL Discovery] Processing environment: '' @ envId) w)))"
  obtain r w5 where c: "convertToPythonEnvironment d info envId ?w4 = (r, w5)"
    by (cases "convertToPythonEnvironment d info envId ?w4")
  have r: "r = converted d envId info"
    using convertToPythonEnvironment_result [of d info envId ?w4] c by simp
  show ?case
    unfolding entry convertEntries.simps Let_def c
    by (cases r) (simp_all add: Cons.IH [OF rest] List.map_filter_simps r [symmetric])
qed

text \<open>
  C5 says that \<^verbatim>\<open>discoverEnvironments\<close> converts each record on its own, skips the
  records whose conversion fails, and returns the descriptors of the others; and that
  it returns the empty list when the store's query rejects. The last part holds, and
  so does the first for a document all of whose entries are records: the result is
  the descriptors of the records that convert, in order. But the loop reads
  \<^verbatim>\<open>info.distro\<close> for its log line before the \<^verbatim>\<open>try\<close> that guards the
  conversion: for an entry whose value is \<^verbatim>\<open>null\<close> that read throws to the outer
  \<^verbatim>\<open>catch\<close>, which returns the empty list, and the descriptors of all the other
  records, converted or not yet reached, are lost.
\<close>

theorem discoverEnvironments_batch:
  "(fst (getAllEnvironments rt s w) = Inl e \<longrightarrow>
      fst (discoverEnvironments (wslDiscovery rt parse create mgr) s w) = [])
   \<and> (fst (getAllEnvironments rt s w) = Inr wslEnvs
        \<and> (\<forall>entry \<in> set wslEnvs. snd entry \<noteq> None) \<longrightarrow>
          fst (discoverEnvironments (wslDiscovery rt parse create mgr) s w)
            = List.map_filter
                (\<lambda>entry. converted (wslDiscovery rt parse create mgr) (fst entry)
                            (the (snd entry)))
                wslEnvs)
   \<and> (fst (getAllEnvironments rt s w) = Inr wslEnvs \<and> (k, None) \<in> set wslEnvs \<longrightarrow>
          fst (discoverEnvironments (wslDiscovery rt parse create mgr) s w) = [])"
proof -
  let ?d = "wslDiscovery rt parse create mgr"
  let ?w1 = "traceInfo ''[WSL Discovery] Loading all environments from persistence...''
               (traceInfo ''[WSL Discovery] Starting WSL environment discovery'' w)"
  obtain r s' w2 where q: "getAllEnvironments rt s ?w1 = (r, s', w2)"
    by (cases "getAllEnvironments rt s ?w1")
  have "fst (getAllEnvironments rt s ?w1) = fst (getAllEnvironments rt s w)"
    by (simp add: getAllEnvironments_result)
  then have r: "fst (getAllEnvironments rt s w) = r"
    using q by simp
  have p: "persistence_getAllEnvironments ?d = getAllEnvironments rt"
    by (simp add: wslDiscovery_def)
  have rejected: "fst (discoverEnvironments ?d s w) = []" if "r = Inl e" for e
    unfolding discoverEnvironments_def Let_def p q using that by simp
  have batch: "fst (discoverEnvironments ?d s w) =
                 (case fst (convertEntries ?d wslEnvs [] w4) of
                    Inl err \<Rightarrow> [] | Inr pythonEnvs \<Rightarrow> pythonEnvs)"
    if "r = Inr wslEnvs"
      and "w4 = (if length wslEnvs = 0
                 then traceInfo ''[WSL Discovery] No environments found in persistence file''
                        (traceInfo (''[WSL Discovery] Found '' @ decimal (length wslEnvs)
                           @ '' WSL environments in persistence'') w2)
                 else traceInfo (''[WSL Discovery] Found '' @ decimal (length wslEnvs)
                        @ '' WSL environments in persistence'') w2)"
    for wslEnvs w4
    unfolding discoverEnvironments_def Let_def p q that
    by (simp split: prod.splits sum.splits)
  have records: "fst (discoverEnvironments ?d s w)
                   = List.map_filter (\<lambda>entry. converted ?d (fst entry) (the (snd entry))) wslEnvs"
    if "r = Inr wslEnvs" and "\<forall>entry \<in> set wslEnvs. snd entry \<noteq> None" for wslEnvs
    using batch [OF that(1) refl] convertEntries_records [OF that(2), of ?d "[]"] by simp
  have null: "fst (discoverEnvironments ?d s w) = []"
    if returned: "r = Inr wslEnvs" and member: "(k, None) \<in> set wslEnvs" for wslEnvs
  proof -
    define w4 where "w4 = (if length wslEnvs = 0
                 then traceInfo ''[WSL Discovery] No environments found in persistence file''
                        (traceInfo (''[WSL Discovery] Found '' @ decimal (length wslEnvs)
                           @ '' WSL environments in persistence'') w2)
                 else traceInfo (''[WSL Discovery] Found '' @ decimal (length wslEnvs)
                        @ '' WSL environments in persistence'') w2)"
    obtain err where "fst (convertEntries ?d wslEnvs [] w4) = Inl err"
      using convertEntries_null_record [OF member, of ?d "[]" w4] by (auto simp: isl_def)
    then show ?thesis
      using batch [OF returned w4_def] by simp
  qed
  show ?thesis
    using rejected records null unfolding r by blast
qed

theorem discoverEnvironments_batch_witness:
  "fst (getAllEnvironments linux_rt fresh_store (file_with (json_document doc_null_record)))
     = Inr [(venv_key, Some proj_venv), (usr_key, None)]
   \<and> converted example_discovery venv_key proj_venv
       = Some (envInfo_of proj_venv (''wsl'', ''Ubuntu-22.04:/mnt/c/proj/.venv/bin/python''))
   \<and> fst (discoverEnvironments example_discovery fresh_store
            (file_with (json_document doc_null_record)))
       = []
   \<and> fst (discoverEnvironments example_discovery fresh_store
            (file_with (json_document doc_v1)))
       = [envInfo_of proj_venv (''wsl'', ''Ubuntu-22.04:/mnt/c/proj/.venv/bin/python''),
          envInfo_of usr_python (''wsl'', ''Ubuntu-22.04:/usr/bin/python3'')]
   \<and> fst (discoverEnvironments example_discovery
            (fresh_store\<lparr>cache := Some doc_no_environments\<rparr>) no_file)
       = []"
proof -
  have null_doc: "WslPersistenceData.version doc_null_record = ''1.0''"
    "environments doc_null_record = Some [(venv_key, Some proj_venv), (usr_key, None)]"
    by (simp_all add: doc_null_record_def)
  have "stored_document linux_rt fresh_store (file_with (json_document doc_null_record))
          = Some doc_null_record"
    by (simp add: example_stored_document example_parse null_doc)
  then have "fst (loadData linux_rt fresh_store (file_with (json_document doc_null_record)))
               = Inr doc_null_record"
    by (simp add: loadData_uncached example_paths null_doc)
  then have entries:
    "fst (getAllEnvironments linux_rt fresh_store (file_with (json_document doc_null_record)))
       = Inr [(venv_key, Some proj_venv), (usr_key, None)]"
    by (simp add: getAllEnvironments_result null_doc)
  have records:
    "fst (getAllEnvironments linux_rt fresh_store (file_with (json_document doc_v1)))
       = Inr [(venv_key, Some proj_venv), (usr_key, Some usr_python)]"
    by (rule loadData_reads_valid_document(2) [OF example_paths(2) example_valid_file(1)])
  have rejected:
    "fst (getAllEnvironments linux_rt (fresh_store\<lparr>cache := Some doc_no_environments\<rparr>) no_file)
       = Inl (TypeError ''Cannot convert undefined or null to object'')"
    by (simp add: getAllEnvironments_result
          loadData_cached [where c = doc_no_environments] doc_no_environments_def)
  have conv: "converted example_discovery venv_key proj_venv
       = Some (envInfo_of proj_venv (''wsl'', ''Ubuntu-22.04:/mnt/c/proj/.venv/bin/python''))"
    "converted example_discovery usr_key usr_python
       = Some (envInfo_of usr_python (''wsl'', ''Ubuntu-22.04:/usr/bin/python3''))"
    by (simp_all add: converted_def convertToPythonEnvironment_try_def example_discovery_def
          wslDiscovery_def example_Uri_parse_def venv_key_def usr_key_def)
  note batch = discoverEnvironments_batch [where rt = linux_rt and s = fresh_store
      and parse = example_Uri_parse and create = "\<lambda>info mgr. Inr info" and mgr = "''wsl''",
      folded example_discovery_def]
  have a: "fst (discoverEnvironments example_discovery fresh_store
                  (file_with (json_document doc_null_record))) = []"
    using batch [where w = "file_with (json_document doc_null_record)"
        and wslEnvs = "[(venv_key, Some proj_venv), (usr_key, None)]" and k = usr_key]
      entries
    by simp
  have b: "fst (discoverEnvironments example_discovery fresh_store
                  (file_with (json_document doc_v1)))
       = [envInfo_of proj_venv (''wsl'', ''Ubuntu-22.04:/mnt/c/proj/.venv/bin/python''),
          envInfo_of usr_python (''wsl'', ''Ubuntu-22.04:/usr/bin/python3'')]"
    using batch [where w = "file_with (json_document doc_v1)"
        and wslEnvs = "[(venv_key, Some proj_venv), (usr_key, Some usr_python)]"]
      records
    by (simp add: List.map_filter_simps conv)
  have c: "fst (discoverEnvironments example_discovery
                  (fresh_store\<lparr>cache := Some doc_no_environments\<rparr>) no_file) = []"
    using discoverEnvironments_batch [where rt = linux_rt
        and s = "fresh_store\<lparr>cache := Some doc_no_environments\<rparr>" and w = no_file
        and parse = example_Uri_parse and create = "\<lambda>info mgr. Inr info" and mgr = "''wsl''",
        folded example_discovery_def]
      rejected
    by simp
  show ?thesis
    using entries conv(1) a b c by blast
qed

end
